theory Spec2Isabelle
  imports Complex_Main "HOL-Library.Word"
begin

section \<open>Strings, numbers and byte arrays\<close>

text \<open>
  Strings are lists of (ASCII) characters.  \<open>toLowerCase\<close> is the lower-casing of the
  offline script's \<open>String.prototype.toLowerCase\<close> on such strings: the letters
  \<open>A\<close> to \<open>Z\<close> move to \<open>a\<close> to \<open>z\<close>, every other character stays.
\<close>

definition lowerChar :: "char \<Rightarrow> char" where
  "lowerChar c =
     (let k = (of_char c :: nat) in if 65 \<le> k \<and> k \<le> 90 then char_of (k + 32) else c)"

definition toLowerCase :: "string \<Rightarrow> string" where
  "toLowerCase s = map lowerChar s"

section \<open>The offline correction script\<close>

subsection \<open>Configuration\<close>

definition WETH :: string where
  "WETH = toLowerCase ''0xee8c0e9f1bffb4eb878d8f15f368a02a35481242''"

definition WEETH :: string where
  "WEETH = toLowerCase ''0xa3d68b74bf0528fdd07263c60d6488749044914b''"

definition WSTETH :: string where
  "WSTETH = toLowerCase ''0x10aeaf63194db8d453d4d85a06e5efe1dd0b5417''"

definition LP_TOKEN :: string where
  "LP_TOKEN =
     toLowerCase ''0x5937e8aa8092eb2b18c40290a65d217e764bafaf2e6f5ddb594a692a9761b26f''"

subsection \<open>Token identity normalisation\<close>

text \<open>
  \<open>safeLower\<close> takes a value of unknown type; \<open>None\<close> stands for every value that is
  not a string (among them \<open>undefined\<close>).
\<close>

definition safeLower :: "string option \<Rightarrow> string" where
  "safeLower s = (case s of Some x \<Rightarrow> toLowerCase x | None \<Rightarrow> [])"

record SwapResult =
  tokenBefore :: string
  tokenAfter :: string
  swapped :: bool

definition swapTokenDeterministic :: "string option \<Rightarrow> SwapResult" where
  "swapTokenDeterministic tokenRaw =
     (let token = safeLower tokenRaw in
      if token = [] then \<lparr>tokenBefore = [], tokenAfter = [], swapped = False\<rparr>
      else if token = WETH then \<lparr>tokenBefore = token, tokenAfter = WEETH, swapped = True\<rparr>
      else if token = WEETH then \<lparr>tokenBefore = token, tokenAfter = WETH, swapped = True\<rparr>
      else \<lparr>tokenBefore = token, tokenAfter = token, swapped = False\<rparr>)"

text \<open>Normalisation as a function from identity to identity, and its \<open>n\<close>-fold repetition.\<close>

definition normalizeToken :: "string \<Rightarrow> string" where
  "normalizeToken t = tokenAfter (swapTokenDeterministic (Some t))"

subsection \<open>Conversion rates and amounts\<close>

text \<open>
  \<open>Decimal\<close> and \<open>BigDecimal\<close> values are modelled by the rational numbers they denote.
  The constructor of decimal.js keeps every digit of its argument; \<open>times\<close>, \<open>div\<close> and
  \<open>plus\<close> round their result to \<open>Decimal.precision\<close> significant digits in the
  rounding mode \<open>Decimal.rounding\<close>, and the script leaves both at their defaults, 20
  digits and \<open>ROUND_HALF_UP\<close>.  The values \<open>NaN\<close> and \<open>Infinity\<close> of decimal.js are not
  part of the model.  The arithmetic of \<open>BigDecimal\<close> belongs to the host of the subgraph,
  which keeps 34 significant digits; it is modelled without that bound.
\<close>

type_synonym decimal = rat

text \<open>The number of decimal digits of a natural number.\<close>

fun digitCount :: "nat \<Rightarrow> nat" where
  "digitCount n = (if n < 10 then 1 else Suc (digitCount (n div 10)))"

declare digitCount.simps [simp del]

text \<open>
  For \<open>0 < y < 1\<close>, the number of places the decimal point moves to the right until
  the value is at least 1.
\<close>

function leadingZeros :: "rat \<Rightarrow> nat" where
  "leadingZeros y = (if 0 < y \<and> y < 1 then Suc (leadingZeros (y * 10)) else 0)"
  by pat_completeness auto
termination
proof (relation "measure (\<lambda>y. nat \<lfloor>1 / y\<rfloor>)")
  show "wf (measure (\<lambda>y. nat \<lfloor>1 / y\<rfloor>))" by simp
next
  fix y :: rat
  assume a: "0 < y \<and> y < 1"
  define n where "n = \<lfloor>1 / y\<rfloor>"
  have p: "1 < 1 / y" using a by simp
  then have n: "1 \<le> n" unfolding n_def by linarith
  have "1 / y < of_int n + 1" unfolding n_def by linarith
  then have "(1 / y) / 10 < (of_int n + 1) / 10" by simp
  also have "\<dots> \<le> of_int n" using n by simp
  finally have "1 / (y * 10) < of_int n" by simp
  then have "\<lfloor>1 / (y * 10)\<rfloor> < n" by (simp add: floor_less_iff)
  then show "(y * 10, y) \<in> measure (\<lambda>y. nat \<lfloor>1 / y\<rfloor>)"
    using n by (simp add: n_def)
qed

declare leadingZeros.simps [simp del]

text \<open>The decimal exponent of the leading digit of a value that is not zero.\<close>

definition sigExponent :: "rat \<Rightarrow> int" where
  "sigExponent x =
     (if 1 \<le> \<bar>x\<bar> then int (digitCount (nat \<lfloor>\<bar>x\<bar>\<rfloor>)) - 1 else - int (leadingZeros \<bar>x\<bar>))"

text \<open>The nearest integer, a tie going away from zero (\<open>ROUND_HALF_UP\<close>).\<close>

definition roundHalfUp :: "rat \<Rightarrow> int" where
  "roundHalfUp x = (if 0 \<le> x then \<lfloor>x + 1 / 2\<rfloor> else - \<lfloor>- x + 1 / 2\<rfloor>)"

text \<open>Rounding to \<open>p\<close> significant decimal digits.\<close>

definition roundSignificant :: "nat \<Rightarrow> rat \<Rightarrow> rat" where
  "roundSignificant p x =
     (if x = 0 then 0
      else (let k = sigExponent x - (int p - 1)
            in of_int (roundHalfUp (x / power_int 10 k)) * power_int 10 k))"

text \<open>The operations \<open>times\<close>, \<open>div\<close> and \<open>plus\<close> of decimal.js at its default precision.\<close>

definition PRECISION :: nat where
  "PRECISION = 20"

definition decimalTimes :: "decimal \<Rightarrow> decimal \<Rightarrow> decimal" where
  "decimalTimes a b = roundSignificant PRECISION (a * b)"

definition decimalDiv :: "decimal \<Rightarrow> decimal \<Rightarrow> decimal" where
  "decimalDiv a b = roundSignificant PRECISION (a / b)"

definition decimalPlus :: "decimal \<Rightarrow> decimal \<Rightarrow> decimal" where
  "decimalPlus a b = roundSignificant PRECISION (a + b)"

definition CONVERSION_RATES :: "(string \<times> string) list" where
  "CONVERSION_RATES =
     [(WEETH, ''1.0829400000000''), (WSTETH, ''1.2208745075197''), (WETH, ''1.00000'')]"

definition conversionRateForToken :: "string \<Rightarrow> string" where
  "conversionRateForToken t =
     (case map_of CONVERSION_RATES t of Some r \<Rightarrow> r | None \<Rightarrow> ''1.00000'')"

text \<open>
  The constructor \<open>new Decimal(s)\<close> of decimal.js is a parameter \<open>newDecimal\<close> of the
  functions that call it: \<open>newDecimal s = None\<close> when the constructor throws on \<open>s\<close>.
  \<open>plainDecimal\<close> is the constructor on the plain notation (digits with an optional
  fraction), the notation of the subgraph's raw amounts and of the rate table.
\<close>

definition digitValue :: "char \<Rightarrow> nat option" where
  "digitValue c =
     (let k = (of_char c :: nat) in if 48 \<le> k \<and> k \<le> 57 then Some (k - 48) else None)"

fun digitsValue :: "nat \<Rightarrow> string \<Rightarrow> nat option" where
  "digitsValue acc [] = Some acc"
| "digitsValue acc (c # cs) =
     (case digitValue c of None \<Rightarrow> None | Some d \<Rightarrow> digitsValue (10 * acc + d) cs)"

definition plainDecimal :: "string \<Rightarrow> decimal option" where
  "plainDecimal s =
     (let ip = takeWhile (\<lambda>c. c \<noteq> CHR ''.'') s;
          fp = drop 1 (dropWhile (\<lambda>c. c \<noteq> CHR ''.'') s)
      in if ip = [] \<and> fp = [] then None
         else case (digitsValue 0 ip, digitsValue 0 fp) of
                (Some i, Some f) \<Rightarrow> Some (of_nat i + of_nat f / 10 ^ length fp)
              | _ \<Rightarrow> None)"

definition rawToBigDecimal :: "(string \<Rightarrow> decimal option) \<Rightarrow> string option \<Rightarrow> decimal option" where
  "rawToBigDecimal newDecimal raw =
     (case raw of
        None \<Rightarrow> None
      | Some s \<Rightarrow> if s = [] then None else newDecimal s)"

datatype script_error = DecimalError

text \<open>
  \<open>Inl DecimalError\<close> is the exception of \<open>new Decimal(conversionRateStr)\<close>, which the
  function does not catch; \<open>Inr None\<close> is the result \<open>null\<close>.
\<close>

definition computeAmountWETHFromRaw ::
  "(string \<Rightarrow> decimal option) \<Rightarrow> string option \<Rightarrow> string option \<Rightarrow> script_error + decimal option" where
  "computeAmountWETHFromRaw newDecimal amountRaw conversionRateStr =
     (case rawToBigDecimal newDecimal amountRaw of
        None \<Rightarrow> Inr None
      | Some rawBig \<Rightarrow>
          (case (case conversionRateStr of
                   None \<Rightarrow> Some 1
                 | Some c \<Rightarrow> if c = [] then Some 1 else newDecimal c) of
             None \<Rightarrow> Inl DecimalError
           | Some conv \<Rightarrow> Inr (Some (decimalDiv (decimalTimes rawBig conv) (10 ^ 18)))))"

subsection \<open>Rows\<close>

record EventRow =
  row_id :: "string option"
  row_provider :: "string option"
  row_token :: "string option"
  row_amountRaw :: "string option"
  row_amountWETH :: "string option"
  row_blockNumber :: "string option"
  row_transactionHash :: "string option"

record CorrectedRow =
  original :: EventRow
  cr_tokenAfter :: string
  cr_swapped :: bool
  amountWETHComputed :: "decimal option"
  conversionRate :: string

text \<open>
  The body of the two loops of \<open>main\<close> that process the deposits and the withdrawals:
  the corrected row pushed for an event row (the audit line, a CSV string, is left out).
\<close>

definition correctRow :: "(string \<Rightarrow> decimal option) \<Rightarrow> EventRow \<Rightarrow> script_error + CorrectedRow" where
  "correctRow newDecimal r =
     (let sw = swapTokenDeterministic (row_token r);
          convRate = conversionRateForToken (tokenAfter sw)
      in case computeAmountWETHFromRaw newDecimal (row_amountRaw r) (Some convRate) of
           Inl e \<Rightarrow> Inl e
         | Inr amount \<Rightarrow>
             Inr \<lparr>original = r, cr_tokenAfter = tokenAfter sw, cr_swapped = swapped sw,
                  amountWETHComputed = amount, conversionRate = convRate\<rparr>)"

subsection \<open>Aggregates\<close>

text \<open>The key \<open>user|tx\<close> of a row in the per-transaction map.\<close>

definition txKey :: "CorrectedRow \<Rightarrow> string" where
  "txKey r =
     (let user = safeLower (row_provider (original r));
          tx = (let t = safeLower (row_transactionHash (original r))
                in if t \<noteq> [] then t
                   else (case row_id (original r) of Some i \<Rightarrow> i | None \<Rightarrow> []))
      in user @ ''|'' @ tx)"

text \<open>One iteration of the loop of \<open>computeTxAggregates\<close>, and the loop from the empty map.\<close>

definition txAggregateStep :: "(string \<rightharpoonup> decimal) \<Rightarrow> CorrectedRow \<Rightarrow> (string \<rightharpoonup> decimal)" where
  "txAggregateStep m r =
     (let key = txKey r;
          token = cr_tokenAfter r;
          isLP = (token = LP_TOKEN);
          m1 = (if m key = None then m(key \<mapsto> 0) else m)
      in case amountWETHComputed r of
           Some a \<Rightarrow>
             if \<not> isLP
             then m1(key \<mapsto> decimalPlus (case m1 key of Some t \<Rightarrow> t | None \<Rightarrow> 0) a)
             else m1
         | None \<Rightarrow> m1)"

definition computeTxAggregates :: "CorrectedRow list \<Rightarrow> (string \<rightharpoonup> decimal)" where
  "computeTxAggregates corrected = foldl txAggregateStep Map.empty corrected"

text \<open>The total a CSV line shows for a key: \<open>txAgg.get(key) ?? new Decimal(0)\<close>.\<close>

definition txTotal :: "(string \<rightharpoonup> decimal) \<Rightarrow> string \<Rightarrow> decimal" where
  "txTotal m key = (case m key of Some t \<Rightarrow> t | None \<Rightarrow> 0)"

record UserTotals =
  deposits :: decimal
  withdrawals :: decimal

text \<open>One iteration of each of the two loops of \<open>main\<close> that fill \<open>userMap\<close>.\<close>

definition userDepositStep :: "(string \<rightharpoonup> UserTotals) \<Rightarrow> CorrectedRow \<Rightarrow> (string \<rightharpoonup> UserTotals)" where
  "userDepositStep userMap r =
     (let user = safeLower (row_provider (original r));
          v = (case amountWETHComputed r of Some a \<Rightarrow> a | None \<Rightarrow> 0);
          cur = (case userMap user of Some c \<Rightarrow> c
                 | None \<Rightarrow> \<lparr>deposits = 0, withdrawals = 0\<rparr>)
      in userMap(user \<mapsto> cur\<lparr>deposits := decimalPlus (deposits cur) v\<rparr>))"

definition userWithdrawalStep :: "(string \<rightharpoonup> UserTotals) \<Rightarrow> CorrectedRow \<Rightarrow> (string \<rightharpoonup> UserTotals)" where
  "userWithdrawalStep userMap r =
     (let user = safeLower (row_provider (original r));
          v = (case amountWETHComputed r of Some a \<Rightarrow> a | None \<Rightarrow> 0);
          cur = (case userMap user of Some c \<Rightarrow> c
                 | None \<Rightarrow> \<lparr>deposits = 0, withdrawals = 0\<rparr>)
      in userMap(user \<mapsto> cur\<lparr>withdrawals := decimalPlus (withdrawals cur) v\<rparr>))"

definition userAggregates :: "CorrectedRow list \<Rightarrow> CorrectedRow list \<Rightarrow> (string \<rightharpoonup> UserTotals)" where
  "userAggregates correctedDeposits correctedWithdrawals =
     foldl userWithdrawalStep (foldl userDepositStep Map.empty correctedDeposits)
       correctedWithdrawals"

section \<open>The subgraph: library values\<close>

text \<open>
  \<open>BigInt\<close> is \<open>int\<close>, \<open>BigDecimal\<close> is \<open>decimal\<close>, \<open>i32\<close> values are integers in the
  32-bit range.  \<open>Bytes\<close> and \<open>Address\<close> are byte arrays; an \<open>Address\<close> is meant to have
  20 bytes.  \<open>toHexString\<close> writes \<open>0x\<close> and two lower-case digits per byte,
  \<open>Bytes_fromHexString\<close> reads such a string back (\<open>None\<close> is the \<open>null\<close> the helpers
  guard against), \<open>intToString\<close> is the decimal \<open>toString\<close> of \<open>BigInt\<close> and \<open>i32\<close>.
\<close>

type_synonym byte = "8 word"
type_synonym Bytes = "byte list"

definition hexDigit :: "nat \<Rightarrow> char" where
  "hexDigit n = (if n < 10 then char_of (48 + n) else char_of (87 + n))"

definition hexValue :: "char \<Rightarrow> nat option" where
  "hexValue c =
     (let k = (of_char c :: nat) in
      if 48 \<le> k \<and> k \<le> 57 then Some (k - 48)
      else if 97 \<le> k \<and> k \<le> 102 then Some (k - 87)
      else if 65 \<le> k \<and> k \<le> 70 then Some (k - 55)
      else None)"

definition byteToHex :: "byte \<Rightarrow> string" where
  "byteToHex b = [hexDigit (unat b div 16), hexDigit (unat b mod 16)]"

definition toHexString :: "Bytes \<Rightarrow> string" where
  "toHexString bs = ''0x'' @ concat (map byteToHex bs)"

fun hexPairs :: "string \<Rightarrow> Bytes option" where
  "hexPairs [] = Some []"
| "hexPairs [c] = None"
| "hexPairs (c1 # c2 # cs) =
     (case (hexValue c1, hexValue c2, hexPairs cs) of
        (Some h, Some l, Some bs) \<Rightarrow> Some (word_of_nat (16 * h + l) # bs)
      | _ \<Rightarrow> None)"

definition Bytes_fromHexString :: "string \<Rightarrow> Bytes option" where
  "Bytes_fromHexString s =
     (case s of
        c1 # c2 # cs \<Rightarrow> if c1 = CHR ''0'' \<and> c2 = CHR ''x'' then hexPairs cs else hexPairs s
      | _ \<Rightarrow> hexPairs s)"

fun natToString :: "nat \<Rightarrow> string" where
  "natToString n =
     (if n < 10 then [char_of (48 + n)]
      else natToString (n div 10) @ [char_of (48 + n mod 10)])"

declare natToString.simps [simp del]

definition intToString :: "int \<Rightarrow> string" where
  "intToString i =
     (if i < 0 then CHR ''-'' # natToString (nat (- i)) else natToString (nat i))"

text \<open>
  A handler that traps is aborted and none of its writes is kept.  The traps of the
  code modelled here: an array read out of range, the use of a null entry as bytes,
  \<open>Address.fromBytes\<close> on bytes that are not 20 wide, \<open>Address.fromString\<close> on a
  string that is no address, and \<open>BigInt.toI32\<close> on a value that needs more than 33 bits.
\<close>

datatype fault = IndexOutOfRange | NullReference | BadAddressLength | BadAddressString | I32Overflow

definition arrayAt :: "'a list \<Rightarrow> int \<Rightarrow> fault + 'a" where
  "arrayAt xs i =
     (if 0 \<le> i \<and> i < int (length xs) then Inr (xs ! nat i) else Inl IndexOutOfRange)"

definition Address_fromBytes :: "Bytes \<Rightarrow> fault + Bytes" where
  "Address_fromBytes b = (if length b \<noteq> 20 then Inl BadAddressLength else Inr b)"

definition Address_fromString :: "string \<Rightarrow> fault + Bytes" where
  "Address_fromString s =
     (case Bytes_fromHexString s of
        Some b \<Rightarrow> if length b = 20 then Inr b else Inl BadAddressString
      | None \<Rightarrow> Inl BadAddressString)"

text \<open>
  \<open>BigInt.toI32\<close> reads the low four bytes of the two's complement bytes of the value and
  traps only when a byte above them is not the sign padding: a value from \<open>-2^32\<close> up to
  \<open>2^32 - 1\<close> is accepted and wraps into the 32-bit range, any other value traps.
\<close>

definition toI32 :: "int \<Rightarrow> fault + int" where
  "toI32 v =
     (if - (2 ^ 32) \<le> v \<and> v < 2 ^ 32 then Inr ((v + 2 ^ 31) mod 2 ^ 32 - 2 ^ 31)
      else Inl I32Overflow)"

text \<open>The cast \<open>as Bytes\<close> of a nullable value; it is only applied to values that are not null.\<close>

definition asBytes :: "Bytes option \<Rightarrow> Bytes" where
  "asBytes m = (case m of Some b \<Rightarrow> b | None \<Rightarrow> [])"

subsection \<open>Entities and the store\<close>

record Block =
  number :: int
  timestamp :: int

record OracleRate =
  oracle_id :: string
  oracle_token :: Bytes
  oracle_blockNumber :: int
  oracle_blockTimestamp :: int
  rateToETH :: decimal
  oracle_source :: string

text \<open>The helpers treat the token list of a pool, and each entry of it, as nullable.\<close>

record Pool =
  pool_id :: string
  lpToken :: Bytes
  tokens :: "Bytes option list option"
  createdBlock :: int

record User =
  user_id :: string
  totalDepositedWETH :: decimal
  totalWithdrawnWETH :: decimal
  netLossWETH :: decimal
  lastUpdatedBlock :: int

text \<open>The fields of a \<open>Deposit\<close> and of a \<open>Withdrawal\<close> entity are the same.\<close>

record FlowRecord =
  flow_id :: string
  flow_provider :: Bytes
  flow_pool :: string
  flow_token :: Bytes
  flow_tokenIndex :: int
  flow_amountRaw :: int
  flow_amountWETH :: decimal
  flow_rateToETHId :: string
  flow_blockNumber :: int
  flow_blockTimestamp :: int
  flow_transactionHash :: Bytes

record Store =
  Pool_store :: "string \<rightharpoonup> Pool"
  OracleRate_store :: "string \<rightharpoonup> OracleRate"
  User_store :: "string \<rightharpoonup> User"
  Deposit_store :: "string \<rightharpoonup> FlowRecord"
  Withdrawal_store :: "string \<rightharpoonup> FlowRecord"

text \<open>
  The contract calls at the block of the event: \<open>None\<close> is a reverted call.
  \<open>try_coins pool i\<close> is \<open>CurveStableSwap.bind(pool).try_coins(i)\<close> and
  \<open>try_decimals token\<close> is \<open>ERC20.bind(token).try_decimals()\<close>.
\<close>

record Chain =
  try_coins :: "Bytes \<Rightarrow> int \<Rightarrow> Bytes option"
  try_decimals :: "Bytes \<Rightarrow> int option"

section \<open>The subgraph: helpers\<close>

definition FORCE_OVERWRITE :: bool where
  "FORCE_OVERWRITE = True"

definition POOL_ADDRESS :: Bytes where
  "POOL_ADDRESS = [0x2F, 0xD1, 0x3B, 0x49, 0xF9, 0x70, 0xE8, 0xC6, 0xD8, 0x92,
                   0x83, 0x05, 0x6C, 0x1C, 0x62, 0x81, 0x21, 0x4B, 0x7E, 0xB6]"

definition WETH_ADDRESS :: Bytes where
  "WETH_ADDRESS = [0xEE, 0x8C, 0x0E, 0x9F, 0x1B, 0xFF, 0xB4, 0xEB, 0x87, 0x8D,
                   0x8F, 0x15, 0xF3, 0x68, 0xA0, 0x2A, 0x35, 0x48, 0x12, 0x42]"

definition WEETH_ADDRESS :: Bytes where
  "WEETH_ADDRESS = [0xA3, 0xD6, 0x8B, 0x74, 0xBF, 0x05, 0x28, 0xFD, 0xD0, 0x72,
                    0x63, 0xC6, 0x0D, 0x64, 0x88, 0x74, 0x90, 0x44, 0x91, 0x4B]"

definition WSTETH_ADDRESS :: Bytes where
  "WSTETH_ADDRESS = [0x10, 0xAE, 0xAF, 0x63, 0x19, 0x4D, 0xB8, 0xD4, 0x53, 0xD4,
                     0xD8, 0x5A, 0x06, 0xE5, 0xEF, 0xE1, 0xDD, 0x0B, 0x54, 0x17]"

definition ZERO_ADDRESS :: Bytes where
  "ZERO_ADDRESS = replicate 20 0"

subsection \<open>Amounts and identifiers\<close>

function exponentLoop :: "int \<Rightarrow> int \<Rightarrow> decimal \<Rightarrow> decimal" where
  "exponentLoop i decimals bd =
     (if i < decimals then exponentLoop (i + 1) decimals (bd * 10) else bd)"
  by pat_completeness auto
termination
  by (relation "measure (\<lambda>(i, decimals, bd). nat (decimals - i))") auto

declare exponentLoop.simps [simp del]

definition exponentToBigDecimal :: "int \<Rightarrow> decimal" where
  "exponentToBigDecimal decimals = exponentLoop 0 decimals 1"

definition toDecimal :: "int \<Rightarrow> int \<Rightarrow> decimal" where
  "toDecimal amount decimals =
     (let precision = exponentToBigDecimal decimals in of_int amount / precision)"

definition makePerTokenId :: "string \<Rightarrow> int \<Rightarrow> int \<Rightarrow> string" where
  "makePerTokenId txHash logIndex tokenIndex =
     (let prefix = (if length txHash > 12 then take 12 txHash else txHash)
      in prefix @ ''-'' @ intToString logIndex @ ''-'' @ intToString tokenIndex)"

definition fetchTokenDecimals :: "Chain \<Rightarrow> Bytes \<Rightarrow> int" where
  "fetchTokenDecimals chain tokenAddr =
     (case try_decimals chain tokenAddr of None \<Rightarrow> 18 | Some v \<Rightarrow> v)"

subsection \<open>Oracle rates and user aggregates\<close>

definition getOrCreateOracleRate ::
  "Bytes \<Rightarrow> Block \<Rightarrow> decimal \<Rightarrow> string \<Rightarrow> Store \<Rightarrow> OracleRate \<times> Store" where
  "getOrCreateOracleRate tokenAddr blk rate src s =
     (let id = toHexString tokenAddr @ ''-'' @ intToString (number blk) in
      case OracleRate_store s id of
        Some existing \<Rightarrow> (existing, s)
      | None \<Rightarrow>
          (let r = \<lparr>oracle_id = id,
                    oracle_token =
                      (case Bytes_fromHexString (toHexString tokenAddr) of
                         None \<Rightarrow> asBytes (Bytes_fromHexString (toHexString ZERO_ADDRESS))
                       | Some maybeTokenBytes \<Rightarrow> maybeTokenBytes),
                    oracle_blockNumber = number blk,
                    oracle_blockTimestamp = timestamp blk,
                    rateToETH = rate,
                    oracle_source = src\<rparr>
           in (r, s\<lparr>OracleRate_store := (OracleRate_store s)(id \<mapsto> r)\<rparr>)))"

definition updateUserAggregates :: "string \<Rightarrow> decimal \<Rightarrow> decimal \<Rightarrow> int \<Rightarrow> Store \<Rightarrow> Store" where
  "updateUserAggregates userAddr depositWETH withdrawWETH blockNumber s =
     (let user0 = (case User_store s userAddr of
                     Some u \<Rightarrow> u
                   | None \<Rightarrow> \<lparr>user_id = userAddr, totalDepositedWETH = 0,
                              totalWithdrawnWETH = 0, netLossWETH = 0, lastUpdatedBlock = 0\<rparr>);
          user1 = (if depositWETH > 0
                   then user0\<lparr>totalDepositedWETH := totalDepositedWETH user0 + depositWETH\<rparr>
                   else user0);
          user2 = (if withdrawWETH > 0
                   then user1\<lparr>totalWithdrawnWETH := totalWithdrawnWETH user1 + withdrawWETH\<rparr>
                   else user1);
          user3 = user2\<lparr>netLossWETH := totalDepositedWETH user2 - totalWithdrawnWETH user2\<rparr>;
          user4 = user3\<lparr>lastUpdatedBlock := blockNumber\<rparr>
      in s\<lparr>User_store := (User_store s)(userAddr \<mapsto> user4)\<rparr>)"

subsection \<open>Pools\<close>

definition getTokenAddressFromPool :: "Pool option \<Rightarrow> int \<Rightarrow> fault + Bytes" where
  "getTokenAddressFromPool pool tokenIndex =
     (case pool of
        None \<Rightarrow> Inr ZERO_ADDRESS
      | Some p \<Rightarrow>
          (case tokens p of
             None \<Rightarrow> Inr ZERO_ADDRESS
           | Some ts \<Rightarrow>
               if tokenIndex < 0 \<or> tokenIndex \<ge> int (length ts) then Inr ZERO_ADDRESS
               else (case arrayAt ts tokenIndex of
                       Inl f \<Rightarrow> Inl f
                     | Inr None \<Rightarrow> Inr ZERO_ADDRESS
                     | Inr (Some b) \<Rightarrow>
                         if length b \<noteq> 20 then Inr ZERO_ADDRESS else Address_fromBytes b)))"

text \<open>The probing loop of \<open>initPoolIfNeeded\<close>: \<open>coins i\<close> is \<open>binding.try_coins(i)\<close>.\<close>

function discoverLoop :: "(int \<Rightarrow> Bytes option) \<Rightarrow> int \<Rightarrow> int \<Rightarrow> Bytes list \<Rightarrow> Bytes list" where
  "discoverLoop coins i maxIndex discovered =
     (if i < maxIndex then
        (case coins i of
           None \<Rightarrow> discovered
         | Some coinAddr \<Rightarrow>
             if coinAddr = ZERO_ADDRESS then discovered
             else discoverLoop coins (i + 1) maxIndex (discovered @ [coinAddr]))
      else discovered)"
  by pat_completeness auto
termination
  by (relation "measure (\<lambda>(coins, i, maxIndex, discovered). nat (maxIndex - i))") auto

declare discoverLoop.simps [simp del]

text \<open>
  The validation loop: the discovered addresses, in order, that read back from their hex
  string as 20 bytes (the list of hex strings kept beside them only feeds a log line).
\<close>

fun validateLoop :: "Bytes list \<Rightarrow> Bytes list \<Rightarrow> Bytes list" where
  "validateLoop [] tokenBytes = tokenBytes"
| "validateLoop (a # discovered) tokenBytes =
     (case Bytes_fromHexString (toHexString a) of
        None \<Rightarrow> validateLoop discovered tokenBytes
      | Some b \<Rightarrow>
          if length b = 20 then validateLoop discovered (tokenBytes @ [b])
          else validateLoop discovered tokenBytes)"

text \<open>The loop over the token list of the existing pool: is an entry null or not 20 wide?\<close>

fun existingInvalidLoop :: "Bytes option list \<Rightarrow> bool" where
  "existingInvalidLoop [] = False"
| "existingInvalidLoop (None # ebs) = True"
| "existingInvalidLoop (Some eb # ebs) = (if length eb \<noteq> 20 then True else existingInvalidLoop ebs)"

definition initPoolIfNeeded :: "Chain \<Rightarrow> Bytes \<Rightarrow> Block \<Rightarrow> int \<Rightarrow> Store \<Rightarrow> Store" where
  "initPoolIfNeeded chain poolAddr blk maxIndex s =
     (let poolId = toHexString poolAddr;
          existing = Pool_store s poolId;
          discovered = discoverLoop (try_coins chain poolAddr) 0 maxIndex [];
          tokenBytes = validateLoop discovered []
      in if length tokenBytes = 0 then s
         else
           (let shouldWrite =
                  (if \<not> FORCE_OVERWRITE then
                     (case existing of
                        None \<Rightarrow> True
                      | Some e \<Rightarrow>
                          (case tokens e of
                             None \<Rightarrow> True
                           | Some ets \<Rightarrow>
                               if length ets \<noteq> length tokenBytes then True
                               else existingInvalidLoop ets))
                   else FORCE_OVERWRITE)
            in if \<not> shouldWrite then s
               else
                 (let p = \<lparr>pool_id = poolId,
                           lpToken =
                             (case Bytes_fromHexString (toHexString poolAddr) of
                                None \<Rightarrow> asBytes (Bytes_fromHexString (toHexString ZERO_ADDRESS))
                              | Some maybeLp \<Rightarrow> maybeLp),
                           tokens = Some (map Some tokenBytes),
                           createdBlock = number blk\<rparr>
                  in s\<lparr>Pool_store := (Pool_store s)(poolId \<mapsto> p)\<rparr>)))"

section \<open>The subgraph: the minimal helpers\<close>

text \<open>
  The repository holds a second, minimal file of helpers with the same function names;
  its functions carry the suffix \<open>_minimal\<close> here.
\<close>

definition makePerTokenId_minimal :: "string \<Rightarrow> int \<Rightarrow> int \<Rightarrow> string" where
  "makePerTokenId_minimal txHash logIndex tokenIndex =
     txHash @ ''-'' @ intToString logIndex @ ''-'' @ intToString tokenIndex"

definition getOrCreateOracleRate_minimal ::
  "Bytes \<Rightarrow> Block \<Rightarrow> decimal \<Rightarrow> string \<Rightarrow> Store \<Rightarrow> OracleRate \<times> Store" where
  "getOrCreateOracleRate_minimal tok blk rate src s =
     (let id = toHexString tok @ ''-'' @ intToString (number blk) in
      case OracleRate_store s id of
        None \<Rightarrow>
          (let r = \<lparr>oracle_id = id, oracle_token = tok, oracle_blockNumber = number blk,
                    oracle_blockTimestamp = timestamp blk, rateToETH = rate,
                    oracle_source = src\<rparr>
           in (r, s\<lparr>OracleRate_store := (OracleRate_store s)(id \<mapsto> r)\<rparr>))
      | Some r \<Rightarrow> (r, s))"

text \<open>
  A new user of the minimal helper has no \<open>lastUpdatedBlock\<close> until the assignment at
  the end of the function; the model starts it at 0.
\<close>

definition updateUserAggregates_minimal ::
  "string \<Rightarrow> decimal \<Rightarrow> decimal \<Rightarrow> int \<Rightarrow> Store \<Rightarrow> Store" where
  "updateUserAggregates_minimal userId depositWETH withdrawWETH blockNumber s =
     (let u0 = (case User_store s userId of
                  Some u \<Rightarrow> u
                | None \<Rightarrow> \<lparr>user_id = userId, totalDepositedWETH = 0,
                           totalWithdrawnWETH = 0, netLossWETH = 0, lastUpdatedBlock = 0\<rparr>);
          u1 = u0\<lparr>totalDepositedWETH := totalDepositedWETH u0 + depositWETH\<rparr>;
          u2 = u1\<lparr>totalWithdrawnWETH := totalWithdrawnWETH u1 + withdrawWETH\<rparr>;
          u3 = u2\<lparr>netLossWETH := totalWithdrawnWETH u2 - totalDepositedWETH u2\<rparr>;
          u4 = u3\<lparr>lastUpdatedBlock := blockNumber\<rparr>
      in s\<lparr>User_store := (User_store s)(userId \<mapsto> u4)\<rparr>)"

text \<open>
  The minimal lookup casts the entry to \<open>Bytes\<close> and hands it to \<open>Address.fromBytes\<close>
  with no check of its own: a null entry and an entry that is not 20 bytes wide trap.
\<close>

definition getTokenAddressFromPool_minimal :: "Pool option \<Rightarrow> int \<Rightarrow> fault + Bytes" where
  "getTokenAddressFromPool_minimal pool index =
     (case pool of
        None \<Rightarrow> Inr ZERO_ADDRESS
      | Some p \<Rightarrow>
          (case tokens p of
             None \<Rightarrow> Inr ZERO_ADDRESS
           | Some ts \<Rightarrow>
               if index < 0 \<or> index \<ge> int (length ts) then Inr ZERO_ADDRESS
               else (case arrayAt ts index of
                       Inl f \<Rightarrow> Inl f
                     | Inr None \<Rightarrow> Inl NullReference
                     | Inr (Some bytesValue) \<Rightarrow> Address_fromBytes bytesValue)))"

section \<open>The subgraph: event handlers\<close>

text \<open>
  The handlers of \<open>src/mapping/curve-stable-swap.ts\<close>, with the helpers of the section
  before last.  An event carries its block, transaction hash, log index and the provider
  parameter; \<open>AddLiquidity\<close> and \<open>RemoveLiquidity\<close> carry a list of amounts,
  \<open>RemoveLiquidityOne\<close> a token index and one amount.  Log lines are left out.
  The file holds a second copy of the three handlers, which loads the pool without the
  second attempt and reads the rate of weETH from the chain; it passes over a zero
  amount with the same \<open>continue\<close> and \<open>return\<close>, and it is not modelled here.
\<close>

record Event =
  ev_block :: Block
  ev_transactionHash :: Bytes
  ev_logIndex :: int
  ev_provider :: Bytes

record LiquidityEvent = Event +
  token_amounts :: "int list"

record RemoveLiquidityOneEvent = Event +
  token_id :: int
  token_amount :: int

definition fetchRedemptionRate :: "Bytes \<Rightarrow> Block \<Rightarrow> decimal" where
  "fetchRedemptionRate tokenAddr blk =
     (if tokenAddr = WETH_ADDRESS then 1
      else if tokenAddr = WEETH_ADDRESS then 10829400000000 / 10 ^ 13
      else if tokenAddr = WSTETH_ADDRESS then 12208745075197 / 10 ^ 13
      else 1)"

text \<open>
  The opening of each handler: \<open>initPoolIfNeeded\<close>, the load of the pool, and one more
  attempt when the pool is still missing.
\<close>

definition loadPoolWithRetry :: "Chain \<Rightarrow> Block \<Rightarrow> Store \<Rightarrow> Store \<times> Pool option" where
  "loadPoolWithRetry chain blk s =
     (let s1 = initPoolIfNeeded chain POOL_ADDRESS blk 8 s in
      case Pool_store s1 (toHexString POOL_ADDRESS) of
        Some p \<Rightarrow> (s1, Some p)
      | None \<Rightarrow>
          (let s2 = initPoolIfNeeded chain POOL_ADDRESS blk 8 s1
           in (s2, Pool_store s2 (toHexString POOL_ADDRESS))))"

datatype FlowKind = IsDeposit | IsWithdrawal

text \<open>
  What the three handlers do for one amount that is not zero, the same text in each up
  to the kind of entity saved and the side of the user aggregate: resolve the token,
  convert the amount, save the entity, update the user.
\<close>

definition materializeRow ::
  "Chain \<Rightarrow> 'a Event_scheme \<Rightarrow> Pool option \<Rightarrow> FlowKind \<Rightarrow> int \<Rightarrow> int \<Rightarrow> Store \<Rightarrow> fault + Store" where
  "materializeRow chain event pool kind tokenIndex amountRaw s =
     (let txHash = toHexString (ev_transactionHash event);
          logIndex = ev_logIndex event;
          providerStr = toHexString (ev_provider event);
          blk = ev_block event
      in case getTokenAddressFromPool pool tokenIndex of
           Inl f \<Rightarrow> Inl f
         | Inr found \<Rightarrow>
             (let tokenAddr =
                    (if found = ZERO_ADDRESS then
                       (let t0 = (if tokenIndex = 0 then WEETH_ADDRESS else found);
                            t1 = (if tokenIndex = 1 then WSTETH_ADDRESS else t0)
                        in if tokenIndex = 2 then WETH_ADDRESS else t1)
                     else found);
                  decimals = fetchTokenDecimals chain tokenAddr;
                  amountDecimal = toDecimal amountRaw decimals;
                  rate = fetchRedemptionRate tokenAddr blk;
                  (oracle, s1) = getOrCreateOracleRate tokenAddr blk rate ''wrapper-call'' s;
                  amountWETH = amountDecimal * rateToETH oracle;
                  id = makePerTokenId txHash logIndex tokenIndex
              in case Address_fromString providerStr of
                   Inl f \<Rightarrow> Inl f
                 | Inr provider \<Rightarrow>
                     (let e = \<lparr>flow_id = id, flow_provider = provider,
                               flow_pool = toHexString POOL_ADDRESS, flow_token = tokenAddr,
                               flow_tokenIndex = tokenIndex, flow_amountRaw = amountRaw,
                               flow_amountWETH = amountWETH, flow_rateToETHId = oracle_id oracle,
                               flow_blockNumber = number blk,
                               flow_blockTimestamp = timestamp blk,
                               flow_transactionHash = ev_transactionHash event\<rparr>
                      in case kind of
                           IsDeposit \<Rightarrow>
                             Inr (updateUserAggregates providerStr amountWETH 0 (number blk)
                                    (s1\<lparr>Deposit_store := (Deposit_store s1)(id \<mapsto> e)\<rparr>))
                         | IsWithdrawal \<Rightarrow>
                             Inr (updateUserAggregates providerStr 0 amountWETH (number blk)
                                    (s1\<lparr>Withdrawal_store := (Withdrawal_store s1)(id \<mapsto> e)\<rparr>)))))"

text \<open>The body of the loop over the amounts of an event: a zero amount is skipped.\<close>

definition liquidityRow ::
  "Chain \<Rightarrow> 'a Event_scheme \<Rightarrow> Pool option \<Rightarrow> FlowKind \<Rightarrow> int \<Rightarrow> int \<Rightarrow> Store \<Rightarrow> fault + Store" where
  "liquidityRow chain event pool kind tokenIndex amountRaw s =
     (if amountRaw = 0 then Inr s
      else materializeRow chain event pool kind tokenIndex amountRaw s)"

fun liquidityLoop ::
  "Chain \<Rightarrow> 'a Event_scheme \<Rightarrow> Pool option \<Rightarrow> FlowKind \<Rightarrow> int \<Rightarrow> int list \<Rightarrow> Store \<Rightarrow> fault + Store" where
  "liquidityLoop chain event pool kind i [] s = Inr s"
| "liquidityLoop chain event pool kind i (amountRaw # amounts) s =
     (case liquidityRow chain event pool kind i amountRaw s of
        Inl f \<Rightarrow> Inl f
      | Inr s' \<Rightarrow> liquidityLoop chain event pool kind (i + 1) amounts s')"

definition handleAddLiquidity :: "Chain \<Rightarrow> LiquidityEvent \<Rightarrow> Store \<Rightarrow> fault + Store" where
  "handleAddLiquidity chain event s =
     (case loadPoolWithRetry chain (ev_block event) s of
        (s1, None) \<Rightarrow> Inr s1
      | (s1, Some p) \<Rightarrow> liquidityLoop chain event (Some p) IsDeposit 0 (token_amounts event) s1)"

definition handleRemoveLiquidity :: "Chain \<Rightarrow> LiquidityEvent \<Rightarrow> Store \<Rightarrow> fault + Store" where
  "handleRemoveLiquidity chain event s =
     (case loadPoolWithRetry chain (ev_block event) s of
        (s1, None) \<Rightarrow> Inr s1
      | (s1, Some p) \<Rightarrow>
          liquidityLoop chain event (Some p) IsWithdrawal 0 (token_amounts event) s1)"

definition handleRemoveLiquidityOne ::
  "Chain \<Rightarrow> RemoveLiquidityOneEvent \<Rightarrow> Store \<Rightarrow> fault + Store" where
  "handleRemoveLiquidityOne chain event s =
     (case loadPoolWithRetry chain (ev_block event) s of
        (s1, None) \<Rightarrow> Inr s1
      | (s1, Some p) \<Rightarrow>
          (case toI32 (token_id event) of
             Inl f \<Rightarrow> Inl f
           | Inr tokenIndex \<Rightarrow>
               (let amountRaw = token_amount event
                in if amountRaw = 0 then Inr s1
                   else materializeRow chain event (Some p) IsWithdrawal tokenIndex amountRaw s1)))"

text \<open>The store before the first event.\<close>

definition emptyStore :: Store where
  "emptyStore = \<lparr>Pool_store = Map.empty, OracleRate_store = Map.empty, User_store = Map.empty,
                  Deposit_store = Map.empty, Withdrawal_store = Map.empty\<rparr>"

section \<open>Properties of the library values and of the loops\<close>

lemma of_char_hexDigit: "n < 16 \<Longrightarrow> (of_char (hexDigit n) :: nat) = (if n < 10 then 48 + n else 87 + n)"
  by (simp add: hexDigit_def)

lemma hexValue_hexDigit: "n < 16 \<Longrightarrow> hexValue (hexDigit n) = Some n"
  unfolding hexValue_def Let_def by (simp add: of_char_hexDigit)

lemma byte_nibbles: "word_of_nat (16 * (unat b div 16) + unat b mod 16) = (b :: byte)"
  by simp

lemma unat_byte_div: "unat (b :: byte) div 16 < 16"
proof -
  have "unat b < 256" using unsigned_less[of b, where ?'a=nat] by simp
  then show ?thesis by simp
qed

lemma hexPairs_byteToHex: "hexPairs (byteToHex b @ cs) = (case hexPairs cs of Some bs \<Rightarrow> Some (b # bs) | None \<Rightarrow> None)"
  by (simp add: byteToHex_def hexValue_hexDigit unat_byte_div split: option.splits)

lemma hexPairs_concat: "hexPairs (concat (map byteToHex bs)) = Some bs"
  by (induction bs) (simp_all add: hexPairs_byteToHex)

lemma fromHex_toHex: "Bytes_fromHexString (toHexString bs) = Some bs"
  by (simp add: Bytes_fromHexString_def toHexString_def hexPairs_concat)

lemma exponentLoop_eq: "exponentLoop i d bd = bd * 10 ^ nat (d - i)"
proof (induction i d bd rule: exponentLoop.induct)
  case (1 i decimals bd)
  show ?case
  proof (cases "i < decimals")
    case True
    then have "nat (decimals - i) = Suc (nat (decimals - (i + 1)))" by simp
    with True 1 show ?thesis by (simp add: exponentLoop.simps[of i])
  next
    case False
    then show ?thesis by (simp add: exponentLoop.simps[of i])
  qed
qed

lemma toDecimal_eq: "toDecimal amount decimals = of_int amount / 10 ^ nat decimals"
  by (simp add: toDecimal_def exponentToBigDecimal_def exponentLoop_eq)

lemma validateLoop_eq: "validateLoop ds acc = acc @ filter (\<lambda>a. length a = 20) ds"
  by (induction ds arbitrary: acc) (simp_all add: fromHex_toHex)

lemma upt_int_step: "0 \<le> i \<Longrightarrow> i < m \<Longrightarrow> [nat i..<nat m] = nat i # [nat (i + 1)..<nat m]"
proof -
  assume a: "0 \<le> i" "i < m"
  then have "nat i < nat m" by simp
  moreover have "nat (i + 1) = Suc (nat i)" using a by simp
  ultimately show ?thesis by (simp add: upt_conv_Cons)
qed

lemma discoverLoop_eq:
  "0 \<le> i \<Longrightarrow> map Some (discoverLoop coins i maxIndex acc) =
     map Some acc @ takeWhile (\<lambda>r. r \<noteq> None \<and> r \<noteq> Some ZERO_ADDRESS) (map (\<lambda>k. coins (int k)) [nat i..<nat maxIndex])"
proof (induction coins i maxIndex acc rule: discoverLoop.induct)
  case (1 coins i maxIndex discovered)
  note unf = discoverLoop.simps[of coins i maxIndex discovered]
  show ?case
  proof (cases "i < maxIndex")
    case False
    then have "nat maxIndex \<le> nat i" by simp
    with False show ?thesis by (simp add: unf)
  next
    case True
    note up = upt_int_step[OF 1(2) True]
    have ci: "int (nat i) = i" using 1(2) by simp
    show ?thesis
    proof (cases "coins i")
      case None
      then show ?thesis using True 1(2) by (simp add: unf up ci)
    next
      case (Some a)
      show ?thesis
      proof (cases "a = ZERO_ADDRESS")
        case True
        then show ?thesis using Some \<open>i < maxIndex\<close> 1(2) by (simp add: unf up ci)
      next
        case False
        have "0 \<le> i + 1" using 1(2) by simp
        from 1(1)[OF True Some False this]
        show ?thesis using Some False True 1(2) by (simp add: unf up ci)
      qed
    qed
  qed
qed

subsection \<open>Rounding to significant digits\<close>

lemma digitCount_lower: "0 < n \<Longrightarrow> 10 ^ (digitCount n - 1) \<le> n"
proof (induction n rule: digitCount.induct)
  case (1 n)
  show ?case
  proof (cases "n < 10")
    case True
    then show ?thesis using 1(2) by (simp add: digitCount.simps[of n])
  next
    case False
    then have "0 < n div 10" by simp
    with 1(1) False have "10 ^ (digitCount (n div 10) - 1) \<le> n div 10" by simp
    then have "10 * 10 ^ (digitCount (n div 10) - 1) \<le> 10 * (n div 10)" by simp
    also have "\<dots> \<le> n" by simp
    finally have "10 * 10 ^ (digitCount (n div 10) - 1) \<le> n" .
    moreover have "0 < digitCount (n div 10)" by (simp add: digitCount.simps[of "n div 10"])
    then have "(10 :: nat) * 10 ^ (digitCount (n div 10) - 1) = 10 ^ digitCount (n div 10)"
      by (cases "digitCount (n div 10)") simp_all
    ultimately show ?thesis using False by (simp add: digitCount.simps[of n])
  qed
qed


lemma leadingZeros_bounds:
  "0 < y \<Longrightarrow> y < 1 \<Longrightarrow> 1 \<le> y * 10 ^ leadingZeros y \<and> y * 10 ^ leadingZeros y < 10"
proof (induction y rule: leadingZeros.induct)
  case (1 y)
  show ?case
  proof (cases "y * 10 < 1")
    case True
    with 1 have "1 \<le> y * 10 * 10 ^ leadingZeros (y * 10) \<and> y * 10 * 10 ^ leadingZeros (y * 10) < 10"
      by simp
    then show ?thesis using 1(2,3) by (simp add: leadingZeros.simps[of y] mult.assoc)
  next
    case False
    then have "leadingZeros (y * 10) = 0" by (simp add: leadingZeros.simps[of "y * 10"])
    then show ?thesis using 1(2,3) False by (simp add: leadingZeros.simps[of y])
  qed
qed


lemma sigExponent_lower: "x \<noteq> 0 \<Longrightarrow> power_int 10 (sigExponent x) \<le> \<bar>x\<bar>"
proof (cases "1 \<le> \<bar>x\<bar>")
  case True
  define n where "n = nat \<lfloor>\<bar>x\<bar>\<rfloor>"
  have n: "0 < n" using True by (simp add: n_def)
  have e: "sigExponent x = int (digitCount n - 1)"
  proof -
    have "0 < digitCount n" by (simp add: digitCount.simps[of n])
    then show ?thesis using True by (simp add: sigExponent_def n_def)
  qed
  have "(10 :: rat) ^ (digitCount n - 1) \<le> of_nat n"
    using digitCount_lower[OF n] by (metis of_nat_le_iff of_nat_numeral of_nat_power)
  also have "\<dots> \<le> \<bar>x\<bar>" unfolding n_def using True by simp
  finally show ?thesis by (simp add: e)
next
  case False
  assume nz: "x \<noteq> 0"
  then have y: "0 < \<bar>x\<bar>" "\<bar>x\<bar> < 1" using False by simp_all
  from leadingZeros_bounds[OF y] have "1 \<le> \<bar>x\<bar> * 10 ^ leadingZeros \<bar>x\<bar>" by simp
  then have "1 / 10 ^ leadingZeros \<bar>x\<bar> \<le> \<bar>x\<bar>"
    by (simp add: divide_le_eq)
  then show ?thesis using False
    by (simp add: sigExponent_def power_int_minus_divide)
qed

text \<open>A value with at most \<open>p\<close> significant digits is not changed by the rounding.\<close>

lemma roundSignificant_exact:
  assumes "x = of_int m * power_int 10 e" and "\<bar>m\<bar> < 10 ^ p" and "0 < p"
  shows "roundSignificant p x = x"
proof (cases "x = 0")
  case True
  then show ?thesis by (simp add: roundSignificant_def)
next
  case False
  define k where "k = sigExponent x - (int p - 1)"
  have "power_int 10 (sigExponent x) \<le> \<bar>x\<bar>" using False by (rule sigExponent_lower)
  also have "\<bar>x\<bar> = of_int \<bar>m\<bar> * power_int 10 e"
    by (simp add: assms(1) abs_mult)
  also have "\<dots> < of_int (10 ^ p) * power_int 10 e"
    using assms(2) by (simp del: of_int_power)
  also have "\<dots> = power_int 10 (int p + e)"
    by (simp add: power_int_add)
  finally have lt: "power_int 10 (sigExponent x) < power_int (10 :: rat) (int p + e)" .
  have "sigExponent x < int p + e"
  proof (rule ccontr)
    assume "\<not> sigExponent x < int p + e"
    then have "int p + e \<le> sigExponent x" by simp
    then have "power_int (10 :: rat) (int p + e) \<le> power_int 10 (sigExponent x)"
      by (rule power_int_increasing) simp
    with lt show False by simp
  qed
  then have ke: "k \<le> e" by (simp add: k_def)
  define j where "j = m * 10 ^ nat (e - k)"
  have "x / power_int 10 k = of_int m * power_int 10 (e - k)"
    by (simp add: assms(1) power_int_diff)
  also have "\<dots> = of_int j" using ke by (simp add: j_def power_int_def)
  finally have q: "x / power_int 10 k = of_int j" .
  have r: "roundHalfUp (of_int j) = j"
    by (simp add: roundHalfUp_def) linarith
  have "roundSignificant p x = of_int j * power_int 10 k"
    using False by (simp add: roundSignificant_def Let_def k_def[symmetric] q r)
  also have "\<dots> = x" using q by (simp add: field_simps)
  finally show ?thesis .
qed





subsection \<open>The address constants\<close>

text \<open>
  The byte arrays of the address constants are the ones their hex strings in the helpers
  denote; three of them are the token identities of the offline script.
\<close>

lemma POOL_ADDRESS_hex:
  "toHexString POOL_ADDRESS = toLowerCase ''0x2fD13b49F970e8C6D89283056C1c6281214b7EB6''"
  by code_simp

lemma WETH_ADDRESS_hex:
  "toHexString WETH_ADDRESS = toLowerCase ''0xEE8c0E9f1BFFb4Eb878d8f15f368A02a35481242''
   \<and> toHexString WETH_ADDRESS = WETH"
  by code_simp

lemma WEETH_ADDRESS_hex:
  "toHexString WEETH_ADDRESS = toLowerCase ''0xA3D68b74bF0528fdD07263c60d6488749044914b''
   \<and> toHexString WEETH_ADDRESS = WEETH"
  by code_simp

lemma WSTETH_ADDRESS_hex:
  "toHexString WSTETH_ADDRESS = toLowerCase ''0x10Aeaf63194db8d453d4D85a06E5eFE1dd0b5417''
   \<and> toHexString WSTETH_ADDRESS = WSTETH"
  by code_simp

lemma ZERO_ADDRESS_hex:
  "toHexString ZERO_ADDRESS = ''0x0000000000000000000000000000000000000000''"
  by code_simp

section \<open>Properties of the offline script\<close>

lemma lowerChar_idem: "lowerChar (lowerChar c) = lowerChar c"
  by (auto simp: lowerChar_def Let_def)

lemma toLowerCase_idem: "toLowerCase (toLowerCase s) = toLowerCase s"
  by (simp add: toLowerCase_def lowerChar_idem)

lemma WETH_lit: "WETH = ''0xee8c0e9f1bffb4eb878d8f15f368a02a35481242''"
  by (simp add: WETH_def toLowerCase_def lowerChar_def)

lemma WEETH_lit: "WEETH = ''0xa3d68b74bf0528fdd07263c60d6488749044914b''"
  by (simp add: WEETH_def toLowerCase_def lowerChar_def)

lemma WETH_neq_WEETH: "WETH \<noteq> WEETH"
  by (simp add: WETH_lit WEETH_lit)

lemma lower_WETH: "toLowerCase WETH = WETH"
  by (simp add: WETH_def toLowerCase_idem)

lemma lower_WEETH: "toLowerCase WEETH = WEETH"
  by (simp add: WEETH_def toLowerCase_idem)

lemma safeLower_Some: "safeLower (Some t) = toLowerCase t"
  by (simp add: safeLower_def)

lemma WETH_nonempty: "WETH \<noteq> []" by (simp add: WETH_lit)
lemma WEETH_nonempty: "WEETH \<noteq> []" by (simp add: WEETH_lit)

lemma swap_WETH:
  "swapTokenDeterministic (Some WETH) = \<lparr>tokenBefore = WETH, tokenAfter = WEETH, swapped = True\<rparr>"
  by (simp add: swapTokenDeterministic_def safeLower_Some lower_WETH WETH_nonempty)

lemma swap_WEETH:
  "swapTokenDeterministic (Some WEETH) = \<lparr>tokenBefore = WEETH, tokenAfter = WETH, swapped = True\<rparr>"
  using WETH_neq_WEETH
  by (auto simp add: swapTokenDeterministic_def safeLower_Some lower_WEETH WEETH_nonempty)

lemma swap_general:
  "swapTokenDeterministic x =
     (if safeLower x = WETH then \<lparr>tokenBefore = WETH, tokenAfter = WEETH, swapped = True\<rparr>
      else if safeLower x = WEETH then \<lparr>tokenBefore = WEETH, tokenAfter = WETH, swapped = True\<rparr>
      else \<lparr>tokenBefore = safeLower x, tokenAfter = safeLower x, swapped = False\<rparr>)"
  using WETH_nonempty WEETH_nonempty
  by (auto simp add: swapTokenDeterministic_def Let_def)

lemma normalize_other:
  "toLowerCase y \<noteq> WETH \<Longrightarrow> toLowerCase y \<noteq> WEETH \<Longrightarrow> normalizeToken y = toLowerCase y"
  by (simp add: normalizeToken_def swap_general safeLower_Some)

lemma normalize_iter_other:
  "toLowerCase y \<noteq> WETH \<Longrightarrow> toLowerCase y \<noteq> WEETH \<Longrightarrow> (normalizeToken ^^ Suc n) y = toLowerCase y"
proof (induction n)
  case 0
  then show ?case by (simp add: normalize_other)
next
  case (Suc n)
  have "(normalizeToken ^^ Suc (Suc n)) y = normalizeToken ((normalizeToken ^^ Suc n) y)" by simp
  also have "\<dots> = normalizeToken (toLowerCase y)" using Suc by simp
  also have "\<dots> = toLowerCase y"
    using Suc.prems by (simp add: normalize_other toLowerCase_idem)
  finally show ?case .
qed

lemma WSTETH_lit: "WSTETH = ''0x10aeaf63194db8d453d4d85a06e5efe1dd0b5417''"
  by (simp add: WSTETH_def toLowerCase_def lowerChar_def)

lemma LP_TOKEN_lit:
  "LP_TOKEN = ''0x5937e8aa8092eb2b18c40290a65d217e764bafaf2e6f5ddb594a692a9761b26f''"
  by (simp add: LP_TOKEN_def toLowerCase_def lowerChar_def)

lemma lower_LP_TOKEN: "toLowerCase LP_TOKEN = LP_TOKEN"
  by (simp add: LP_TOKEN_def toLowerCase_idem)

lemma lower_checksum_WETH:
  "toLowerCase ''0xEE8c0E9f1BFFb4Eb878d8f15f368A02a35481242'' = WETH"
  by code_simp

lemma lower_checksum_WSTETH:
  "toLowerCase ''0x10Aeaf63194db8d453d4D85a06E5eFE1dd0b5417'' = WSTETH"
  by code_simp

lemma normalize_pair_any_case:
  "toLowerCase y = WETH \<or> toLowerCase y = WEETH \<Longrightarrow>
   normalizeToken (normalizeToken y) = toLowerCase y"
  using WETH_neq_WEETH
  by (auto simp add: normalizeToken_def swap_general safeLower_Some lower_WETH lower_WEETH)

text \<open>
  Claim C3, as stated, fails on strings that are not in lower case.  The spelling of the
  wstETH address in the helpers, which is neither of the two swapped strings, is not
  returned as it is but in lower case; and the spelling of the WETH address in the
  helpers, which is neither of the two swapped strings either, is swapped.
\<close>

theorem swap_normalization_case_counterexample:
  "normalizeToken ''0x10Aeaf63194db8d453d4D85a06E5eFE1dd0b5417''
     \<noteq> ''0x10Aeaf63194db8d453d4D85a06E5eFE1dd0b5417''
   \<and> ''0xEE8c0E9f1BFFb4Eb878d8f15f368A02a35481242'' \<noteq> WETH
   \<and> ''0xEE8c0E9f1BFFb4Eb878d8f15f368A02a35481242'' \<noteq> WEETH
   \<and> swapTokenDeterministic (Some ''0xEE8c0E9f1BFFb4Eb878d8f15f368A02a35481242'')
       = \<lparr>tokenBefore = WETH, tokenAfter = WEETH, swapped = True\<rparr>"
proof -
  have "WSTETH \<noteq> WETH" "WSTETH \<noteq> WEETH"
    by (simp_all add: WSTETH_lit WETH_lit WEETH_lit)
  then have "normalizeToken ''0x10Aeaf63194db8d453d4D85a06E5eFE1dd0b5417'' = WSTETH"
    by (simp add: normalize_other lower_checksum_WSTETH)
  then have a: "normalizeToken ''0x10Aeaf63194db8d453d4D85a06E5eFE1dd0b5417''
     \<noteq> ''0x10Aeaf63194db8d453d4D85a06E5eFE1dd0b5417''"
    by (simp add: WSTETH_lit)
  have b: "''0xEE8c0E9f1BFFb4Eb878d8f15f368A02a35481242'' \<noteq> WETH"
    "''0xEE8c0E9f1BFFb4Eb878d8f15f368A02a35481242'' \<noteq> WEETH"
    by (simp_all add: WETH_lit WEETH_lit)
  have c: "swapTokenDeterministic (Some ''0xEE8c0E9f1BFFb4Eb878d8f15f368A02a35481242'')
       = \<lparr>tokenBefore = WETH, tokenAfter = WEETH, swapped = True\<rparr>"
    by (simp add: swap_general safeLower_Some lower_checksum_WETH)
  from a b c show ?thesis by simp
qed

text \<open>
  Claim C3, amended.  \<open>swapTokenDeterministic\<close> lower-cases its input first (a value that
  is not a string counts as the empty string) and reports the result as \<open>tokenBefore\<close>.
  If the lower-cased input is one of the two swapped identities, in whatever case it was
  spelled, the result is the other identity with \<open>swapped = True\<close>, and a second
  application gives the lower-cased input back.  Every other input is returned in lower
  case with \<open>swapped = False\<close>, however often the normalisation is repeated.  So on
  identities written in lower case the normalisation is an involution on the swapped
  pair and the identity function elsewhere.
\<close>

theorem swap_normalization_involution:
  "(\<forall>x. swapTokenDeterministic x =
          (if safeLower x = WETH
           then \<lparr>tokenBefore = WETH, tokenAfter = WEETH, swapped = True\<rparr>
           else if safeLower x = WEETH
           then \<lparr>tokenBefore = WEETH, tokenAfter = WETH, swapped = True\<rparr>
           else \<lparr>tokenBefore = safeLower x, tokenAfter = safeLower x, swapped = False\<rparr>))
   \<and> swapTokenDeterministic (Some WETH) = \<lparr>tokenBefore = WETH, tokenAfter = WEETH, swapped = True\<rparr>
   \<and> swapTokenDeterministic (Some WEETH) = \<lparr>tokenBefore = WEETH, tokenAfter = WETH, swapped = True\<rparr>
   \<and> WETH \<noteq> WEETH
   \<and> normalizeToken (normalizeToken WETH) = WETH
   \<and> normalizeToken (normalizeToken WEETH) = WEETH
   \<and> (\<forall>y. toLowerCase y = WETH \<or> toLowerCase y = WEETH \<longrightarrow>
          normalizeToken (normalizeToken y) = toLowerCase y)
   \<and> (\<forall>y n. toLowerCase y \<noteq> WETH \<longrightarrow> toLowerCase y \<noteq> WEETH \<longrightarrow>
          swapTokenDeterministic (Some y) =
            \<lparr>tokenBefore = toLowerCase y, tokenAfter = toLowerCase y, swapped = False\<rparr>
          \<and> (normalizeToken ^^ Suc n) y = toLowerCase y)
   \<and> (\<forall>y n. toLowerCase y = y \<longrightarrow> y \<noteq> WETH \<longrightarrow> y \<noteq> WEETH \<longrightarrow>
          swapTokenDeterministic (Some y) = \<lparr>tokenBefore = y, tokenAfter = y, swapped = False\<rparr>
          \<and> (normalizeToken ^^ n) y = y)"
proof -
  have other: "\<And>y n. toLowerCase y = y \<Longrightarrow> y \<noteq> WETH \<Longrightarrow> y \<noteq> WEETH \<Longrightarrow> (normalizeToken ^^ n) y = y"
  proof -
    fix y :: string and n
    assume a: "toLowerCase y = y" "y \<noteq> WETH" "y \<noteq> WEETH"
    show "(normalizeToken ^^ n) y = y"
    proof (cases n)
      case 0
      then show ?thesis by simp
    next
      case (Suc k)
      then show ?thesis using normalize_iter_other[of y k] a by simp
    qed
  qed
  have c1: "\<forall>x. swapTokenDeterministic x =
          (if safeLower x = WETH
           then \<lparr>tokenBefore = WETH, tokenAfter = WEETH, swapped = True\<rparr>
           else if safeLower x = WEETH
           then \<lparr>tokenBefore = WEETH, tokenAfter = WETH, swapped = True\<rparr>
           else \<lparr>tokenBefore = safeLower x, tokenAfter = safeLower x, swapped = False\<rparr>)"
    using swap_general by blast
  have c2: "swapTokenDeterministic (Some WETH) = \<lparr>tokenBefore = WETH, tokenAfter = WEETH, swapped = True\<rparr>"
    by (rule swap_WETH)
  have c3: "swapTokenDeterministic (Some WEETH) = \<lparr>tokenBefore = WEETH, tokenAfter = WETH, swapped = True\<rparr>"
    by (rule swap_WEETH)
  have c4: "WETH \<noteq> WEETH"
    by (rule WETH_neq_WEETH)
  have c5: "normalizeToken (normalizeToken WETH) = WETH"
    by (simp add: normalizeToken_def swap_WETH swap_WEETH)
  have c6: "normalizeToken (normalizeToken WEETH) = WEETH"
    by (simp add: normalizeToken_def swap_WETH swap_WEETH)
  have c7: "\<forall>y. toLowerCase y = WETH \<or> toLowerCase y = WEETH \<longrightarrow>
          normalizeToken (normalizeToken y) = toLowerCase y"
    using normalize_pair_any_case by blast
  have c8: "\<forall>y n. toLowerCase y \<noteq> WETH \<longrightarrow> toLowerCase y \<noteq> WEETH \<longrightarrow>
          swapTokenDeterministic (Some y) =
            \<lparr>tokenBefore = toLowerCase y, tokenAfter = toLowerCase y, swapped = False\<rparr>
          \<and> (normalizeToken ^^ Suc n) y = toLowerCase y"
  proof (intro allI impI conjI)
    fix y :: string and n
    assume a: "toLowerCase y \<noteq> WETH" "toLowerCase y \<noteq> WEETH"
    then show "swapTokenDeterministic (Some y) =
            \<lparr>tokenBefore = toLowerCase y, tokenAfter = toLowerCase y, swapped = False\<rparr>"
      by (simp add: swap_general safeLower_Some)
    from a show "(normalizeToken ^^ Suc n) y = toLowerCase y"
      by (rule normalize_iter_other)
  qed
  have c9: "\<forall>y n. toLowerCase y = y \<longrightarrow> y \<noteq> WETH \<longrightarrow> y \<noteq> WEETH \<longrightarrow>
          swapTokenDeterministic (Some y) = \<lparr>tokenBefore = y, tokenAfter = y, swapped = False\<rparr>
          \<and> (normalizeToken ^^ n) y = y"
  proof (intro allI impI conjI)
    fix y :: string and n
    assume a: "toLowerCase y = y" "y \<noteq> WETH" "y \<noteq> WEETH"
    then show "swapTokenDeterministic (Some y) = \<lparr>tokenBefore = y, tokenAfter = y, swapped = False\<rparr>"
      by (simp add: swap_general safeLower_Some)
    from a show "(normalizeToken ^^ n) y = y"
      by (rule other)
  qed
  show ?thesis
    by (intro conjI) (rule c1 c2 c3 c4 c5 c6 c7 c8 c9)+
qed

theorem swap_normalization_involution_witness:
  "swapTokenDeterministic (Some WSTETH) =
     \<lparr>tokenBefore = WSTETH, tokenAfter = WSTETH, swapped = False\<rparr>
   \<and> (normalizeToken ^^ 3) WSTETH = WSTETH
   \<and> (normalizeToken ^^ Suc 2) ''0x10Aeaf63194db8d453d4D85a06E5eFE1dd0b5417'' = WSTETH
   \<and> normalizeToken (normalizeToken ''0xEE8c0E9f1BFFb4Eb878d8f15f368A02a35481242'') = WETH"
proof -
  have h1: "toLowerCase WSTETH = WSTETH" by (simp add: WSTETH_def toLowerCase_idem)
  have h2: "WSTETH \<noteq> WETH" by (simp add: WSTETH_lit WETH_lit)
  have h3: "WSTETH \<noteq> WEETH" by (simp add: WSTETH_lit WEETH_lit)
  note t = swap_normalization_involution
  from t h1 h2 h3 have a: "swapTokenDeterministic (Some WSTETH) =
     \<lparr>tokenBefore = WSTETH, tokenAfter = WSTETH, swapped = False\<rparr>
   \<and> (normalizeToken ^^ 3) WSTETH = WSTETH"
    by blast
  have "toLowerCase ''0x10Aeaf63194db8d453d4D85a06E5eFE1dd0b5417'' \<noteq> WETH"
    "toLowerCase ''0x10Aeaf63194db8d453d4D85a06E5eFE1dd0b5417'' \<noteq> WEETH"
    using h2 h3 by (simp_all only: lower_checksum_WSTETH not_False_eq_True)
  with t have "(normalizeToken ^^ Suc 2) ''0x10Aeaf63194db8d453d4D85a06E5eFE1dd0b5417''
      = toLowerCase ''0x10Aeaf63194db8d453d4D85a06E5eFE1dd0b5417''"
    by blast
  then have b: "(normalizeToken ^^ Suc 2) ''0x10Aeaf63194db8d453d4D85a06E5eFE1dd0b5417'' = WSTETH"
    by (simp only: lower_checksum_WSTETH)
  from t lower_checksum_WETH
  have "normalizeToken (normalizeToken ''0xEE8c0E9f1BFFb4Eb878d8f15f368A02a35481242'')
      = toLowerCase ''0xEE8c0E9f1BFFb4Eb878d8f15f368A02a35481242''"
    by blast
  then have c: "normalizeToken (normalizeToken ''0xEE8c0E9f1BFFb4Eb878d8f15f368A02a35481242'') = WETH"
    by (simp only: lower_checksum_WETH)
  from a b c show ?thesis by simp
qed




lemma plainDecimal_ex4: "plainDecimal ''1.00000'' = Some 1"
  by (simp add: plainDecimal_def digitValue_def)

lemma plainDecimal_ex5: "plainDecimal ''1000000000000000000'' = Some 1000000000000000000"
  by (simp add: plainDecimal_def digitValue_def)



lemma roundSignificant_int:
  "\<bar>m\<bar> < 10 ^ 20 \<Longrightarrow> roundSignificant PRECISION (of_int m) = of_int m"
  by (rule roundSignificant_exact[where m = m and e = 0]) (simp_all add: PRECISION_def)

lemma computeAmount_eq:
  "raw \<noteq> [] \<Longrightarrow> newDecimal raw = Some a \<Longrightarrow> rateStr \<noteq> [] \<Longrightarrow> newDecimal rateStr = Some c \<Longrightarrow>
   computeAmountWETHFromRaw newDecimal (Some raw) (Some rateStr)
     = Inr (Some (roundSignificant 20 (roundSignificant 20 (a * c) / 10 ^ 18)))"
  by (simp add: computeAmountWETHFromRaw_def rawToBigDecimal_def decimalDiv_def decimalTimes_def
      PRECISION_def)

lemma scaled_exact:
  assumes "x = of_int m * power_int 10 e" and "\<bar>m\<bar> < 10 ^ 20"
  shows "roundSignificant 20 (roundSignificant 20 x / 10 ^ 18) = x / 10 ^ 18"
proof -
  have r: "roundSignificant 20 x = x"
    using assms by (rule roundSignificant_exact) simp
  have "x / 10 ^ 18 = of_int m * power_int 10 (e - 18)"
    by (simp add: assms(1) power_int_diff)
  then have "roundSignificant 20 (x / 10 ^ 18) = x / 10 ^ 18"
    using assms(2) by (rule roundSignificant_exact) simp
  then show ?thesis by (simp only: r)
qed

lemma computeAmount_exact:
  assumes "raw \<noteq> []" "newDecimal raw = Some a" "rateStr \<noteq> []" "newDecimal rateStr = Some c"
    and "a * c = of_int m * power_int 10 e" "\<bar>m\<bar> < 10 ^ 20"
  shows "computeAmountWETHFromRaw newDecimal (Some raw) (Some rateStr)
           = Inr (Some (a * c / 10 ^ 18))"
proof -
  have e1: "computeAmountWETHFromRaw newDecimal (Some raw) (Some rateStr)
     = Inr (Some (roundSignificant 20 (roundSignificant 20 (a * c) / 10 ^ 18)))"
    using assms(1-4) by (rule computeAmount_eq)
  have e2: "roundSignificant 20 (roundSignificant 20 (a * c) / 10 ^ 18) = a * c / 10 ^ 18"
    using assms(5,6) by (rule scaled_exact)
  show ?thesis by (simp only: e1 e2)
qed





lemma swap_LP_TOKEN:
  "swapTokenDeterministic (Some LP_TOKEN) =
     \<lparr>tokenBefore = LP_TOKEN, tokenAfter = LP_TOKEN, swapped = False\<rparr>"
proof -
  have "LP_TOKEN \<noteq> WETH" "LP_TOKEN \<noteq> WEETH"
    by (simp_all add: LP_TOKEN_lit WETH_lit WEETH_lit)
  then show ?thesis by (simp add: swap_general safeLower_Some lower_LP_TOKEN)
qed

lemma rate_LP_TOKEN: "conversionRateForToken LP_TOKEN = ''1.00000''"
  by (simp add: conversionRateForToken_def CONVERSION_RATES_def LP_TOKEN_lit WETH_lit WEETH_lit
      WSTETH_lit)

lemma amount_LP:
  "computeAmountWETHFromRaw plainDecimal (Some ''1000000000000000000'') (Some ''1.00000'')
     = Inr (Some 1)"
proof -
  have "computeAmountWETHFromRaw plainDecimal (Some ''1000000000000000000'')
      (Some ''1.00000'') = Inr (Some (1000000000000000000 * 1 / 10 ^ 18))"
    by (rule computeAmount_exact[where a = 1000000000000000000 and c = 1
          and m = 1000000000000000000 and e = 0])
      (simp_all add: plainDecimal_ex5 plainDecimal_ex4)
  then show ?thesis by simp
qed

lemma correctRow_LP:
  "correctRow plainDecimal
     \<lparr>row_id = Some ''lp-1'', row_provider = Some ''0xabc'', row_token = Some LP_TOKEN,
      row_amountRaw = Some ''1000000000000000000'', row_amountWETH = None,
      row_blockNumber = Some ''1'', row_transactionHash = Some ''0xdef''\<rparr>
   = Inr \<lparr>original =
            \<lparr>row_id = Some ''lp-1'', row_provider = Some ''0xabc'', row_token = Some LP_TOKEN,
             row_amountRaw = Some ''1000000000000000000'', row_amountWETH = None,
             row_blockNumber = Some ''1'', row_transactionHash = Some ''0xdef''\<rparr>,
          cr_tokenAfter = LP_TOKEN, cr_swapped = False, amountWETHComputed = Some 1,
          conversionRate = ''1.00000''\<rparr>"
  by (simp add: correctRow_def swap_LP_TOKEN rate_LP_TOKEN amount_LP)

lemma safeLower_0xabc: "safeLower (Some ''0xabc'') = ''0xabc''"
  by (simp add: safeLower_def toLowerCase_def lowerChar_def)

lemma plus_examples: "decimalPlus 5 1 = 6" "decimalPlus 0 1 = 1"
  using roundSignificant_int[of 6] roundSignificant_int[of 1] by (simp_all add: decimalPlus_def)

text \<open>
  Claim C1 on the code.  A deposit row whose token is the pool token, with the raw amount
  \<open>10^18\<close>, is corrected to a row with \<open>tokenAfter = LP_TOKEN\<close> and the amount 1.  The
  loops of \<open>main\<close> that fill \<open>userMap\<close> have no test for the pool token: the row raises
  the user's deposits from 5 to 6 (and, as a withdrawal, the withdrawals from 0 to 1).
\<close>

theorem lp_row_changes_user_aggregate:
  "(case correctRow plainDecimal
      \<lparr>row_id = Some ''lp-1'', row_provider = Some ''0xabc'', row_token = Some LP_TOKEN,
       row_amountRaw = Some ''1000000000000000000'', row_amountWETH = None,
       row_blockNumber = Some ''1'', row_transactionHash = Some ''0xdef''\<rparr> of
      Inl e \<Rightarrow> False
    | Inr r \<Rightarrow>
        cr_tokenAfter r = LP_TOKEN
        \<and> userDepositStep [''0xabc'' \<mapsto> \<lparr>deposits = 5, withdrawals = 0\<rparr>] r ''0xabc''
            = Some \<lparr>deposits = 6, withdrawals = 0\<rparr>
        \<and> userWithdrawalStep [''0xabc'' \<mapsto> \<lparr>deposits = 5, withdrawals = 0\<rparr>] r ''0xabc''
            = Some \<lparr>deposits = 5, withdrawals = 1\<rparr>)"
  by (simp add: correctRow_LP userDepositStep_def userWithdrawalStep_def safeLower_0xabc
      plus_examples)

text \<open>
  The per-transaction loop does skip the pool token: a row whose token after
  normalisation is \<open>LP_TOKEN\<close> leaves the running total of every key as it was (a key
  seen for the first time is entered with the total 0, which is what a missing key reads
  as).
\<close>

theorem lp_row_keeps_tx_totals:
  "cr_tokenAfter r = LP_TOKEN \<longrightarrow>
     (\<forall>key. txTotal (txAggregateStep m r) key = txTotal m key)
     \<and> (\<forall>key t. m key = Some t \<longrightarrow> txAggregateStep m r key = Some t)"
  by (auto simp add: txAggregateStep_def txTotal_def Let_def split: option.splits)

theorem lp_row_keeps_tx_totals_witness:
  "txTotal (txAggregateStep Map.empty
      \<lparr>original =
         \<lparr>row_id = Some ''lp-1'', row_provider = Some ''0xabc'', row_token = Some LP_TOKEN,
          row_amountRaw = Some ''1000000000000000000'', row_amountWETH = None,
          row_blockNumber = Some ''1'', row_transactionHash = Some ''0xdef''\<rparr>,
       cr_tokenAfter = LP_TOKEN, cr_swapped = False, amountWETHComputed = Some 1,
       conversionRate = ''1.00000''\<rparr>) ''0xabc|0xdef'' = 0"
  using lp_row_keeps_tx_totals[of
      "\<lparr>original =
         \<lparr>row_id = Some ''lp-1'', row_provider = Some ''0xabc'', row_token = Some LP_TOKEN,
          row_amountRaw = Some ''1000000000000000000'', row_amountWETH = None,
          row_blockNumber = Some ''1'', row_transactionHash = Some ''0xdef''\<rparr>,
       cr_tokenAfter = LP_TOKEN, cr_swapped = False, amountWETHComputed = Some 1,
       conversionRate = ''1.00000''\<rparr>" Map.empty]
  by (simp add: txTotal_def)

section \<open>Properties of the helpers\<close>

lemma intToString_7: "intToString 7 = ''7''"
  by code_simp

lemma intToString_1: "intToString 1 = ''1''"
  by code_simp

text \<open>
  Claim C4 on the code.  The minimal \<open>updateUserAggregates\<close> stores the net field as
  withdrawn minus deposited: after a first deposit of 1 the totals are 1 and 0 and the
  stored net is \<open>-1\<close>, not their difference \<open>1\<close>.
\<close>

theorem minimal_net_has_opposite_sign:
  "(case User_store (updateUserAggregates_minimal ''0xabc'' 1 0 5 emptyStore) ''0xabc'' of
      None \<Rightarrow> False
    | Some u \<Rightarrow>
        totalDepositedWETH u = 1 \<and> totalWithdrawnWETH u = 0 \<and> netLossWETH u = - 1
        \<and> netLossWETH u \<noteq> totalDepositedWETH u - totalWithdrawnWETH u)"
  by (simp add: updateUserAggregates_minimal_def emptyStore_def)

text \<open>
  The helper the handlers import does what claim C4 says: after every call the stored
  net of the updated user is the deposited total minus the withdrawn total.
\<close>

theorem net_is_deposited_minus_withdrawn:
  "\<exists>u. User_store (updateUserAggregates userAddr depositWETH withdrawWETH blockNumber s) userAddr
         = Some u
       \<and> netLossWETH u = totalDepositedWETH u - totalWithdrawnWETH u"
  by (simp add: updateUserAggregates_def Let_def)

text \<open>
  Claim C5 on the code.  The minimal \<open>makePerTokenId\<close>, documented as
  \<open>txPrefix-logIndex-tokenIndex\<close>, joins the whole transaction hash rather than its
  first 12 characters to the two indices.
\<close>

theorem minimal_id_keeps_whole_hash:
  "makePerTokenId_minimal
     ''0x48d878e4b6669c34ef333d84e9d714d3db06047e3eeefe89ba7614237a70d2df'' 7 1
   = ''0x48d878e4b6669c34ef333d84e9d714d3db06047e3eeefe89ba7614237a70d2df-7-1''
   \<and> makePerTokenId_minimal
     ''0x48d878e4b6669c34ef333d84e9d714d3db06047e3eeefe89ba7614237a70d2df'' 7 1
   \<noteq> take 12 ''0x48d878e4b6669c34ef333d84e9d714d3db06047e3eeefe89ba7614237a70d2df''
       @ ''-'' @ intToString 7 @ ''-'' @ intToString 1"
  by (simp add: makePerTokenId_minimal_def intToString_7 intToString_1)

text \<open>
  The helper the handlers import builds the identifier of claim C5: the first 12
  characters of the hash (all of it when it is shorter), the log index, the token index.
\<close>

theorem per_token_id_has_prefix_12:
  "makePerTokenId txHash logIndex tokenIndex
     = take 12 txHash @ ''-'' @ intToString logIndex @ ''-'' @ intToString tokenIndex"
  by (simp add: makePerTokenId_def)

text \<open>
  The minimal \<open>updateUserAggregates\<close> adds the two amounts with no test of their sign:
  had it been handed the deposit \<open>-1\<close>, the deposited total of a user would go from 2
  down to 1.  A handler passes a token amount of an event, which is an unsigned integer,
  scaled and multiplied by a rate, or 0; the property below asks for amounts that are not
  negative there.
\<close>

lemma minimal_update_negative_amount:
  "(case User_store
           (updateUserAggregates_minimal ''0xabc'' (- 1) 0 6
              (updateUserAggregates_minimal ''0xabc'' 2 0 5 emptyStore)) ''0xabc'' of
      None \<Rightarrow> False
    | Some u \<Rightarrow> totalDepositedWETH u = 1)
   \<and> (case User_store (updateUserAggregates_minimal ''0xabc'' 2 0 5 emptyStore) ''0xabc'' of
      None \<Rightarrow> False
    | Some u \<Rightarrow> totalDepositedWETH u = 2)"
  by (simp add: updateUserAggregates_minimal_def emptyStore_def)

lemma minimal_totals_never_decrease:
  assumes "0 \<le> depositWETH" and "0 \<le> withdrawWETH"
  shows "(case User_store s u of None \<Rightarrow> 0 | Some x \<Rightarrow> totalDepositedWETH x)
     \<le> (case User_store
              (updateUserAggregates_minimal userAddr depositWETH withdrawWETH blockNumber s) u of
           None \<Rightarrow> 0 | Some x \<Rightarrow> totalDepositedWETH x)"
    and "(case User_store s u of None \<Rightarrow> 0 | Some x \<Rightarrow> totalWithdrawnWETH x)
     \<le> (case User_store
              (updateUserAggregates_minimal userAddr depositWETH withdrawWETH blockNumber s) u of
           None \<Rightarrow> 0 | Some x \<Rightarrow> totalWithdrawnWETH x)"
  using assms
  by (auto simp add: updateUserAggregates_minimal_def Let_def split: option.splits)

lemma full_totals_never_decrease:
  "(case User_store s u of None \<Rightarrow> 0 | Some x \<Rightarrow> totalDepositedWETH x)
     \<le> (case User_store (updateUserAggregates userAddr depositWETH withdrawWETH blockNumber s) u of
           None \<Rightarrow> 0 | Some x \<Rightarrow> totalDepositedWETH x)"
  "(case User_store s u of None \<Rightarrow> 0 | Some x \<Rightarrow> totalWithdrawnWETH x)
     \<le> (case User_store (updateUserAggregates userAddr depositWETH withdrawWETH blockNumber s) u of
           None \<Rightarrow> 0 | Some x \<Rightarrow> totalWithdrawnWETH x)"
  by (auto simp add: updateUserAggregates_def Let_def split: option.splits)

text \<open>
  Claim C9.  No call of \<open>updateUserAggregates\<close> lowers the deposited or the withdrawn
  total of any user (a user not yet stored counts as 0).  The helper the handlers import
  adds an amount only when it is positive, so this holds there for every pair of amounts;
  the minimal helper adds both amounts as they are, and it holds there whenever neither
  amount is negative.
\<close>

theorem user_totals_never_decrease:
  "(case User_store s u of None \<Rightarrow> 0 | Some x \<Rightarrow> totalDepositedWETH x)
     \<le> (case User_store (updateUserAggregates userAddr depositWETH withdrawWETH blockNumber s) u of
           None \<Rightarrow> 0 | Some x \<Rightarrow> totalDepositedWETH x)
   \<and> (case User_store s u of None \<Rightarrow> 0 | Some x \<Rightarrow> totalWithdrawnWETH x)
     \<le> (case User_store (updateUserAggregates userAddr depositWETH withdrawWETH blockNumber s) u of
           None \<Rightarrow> 0 | Some x \<Rightarrow> totalWithdrawnWETH x)
   \<and> (0 \<le> depositWETH \<longrightarrow> 0 \<le> withdrawWETH \<longrightarrow>
        (case User_store s u of None \<Rightarrow> 0 | Some x \<Rightarrow> totalDepositedWETH x)
          \<le> (case User_store
                   (updateUserAggregates_minimal userAddr depositWETH withdrawWETH blockNumber s) u of
                None \<Rightarrow> 0 | Some x \<Rightarrow> totalDepositedWETH x)
        \<and> (case User_store s u of None \<Rightarrow> 0 | Some x \<Rightarrow> totalWithdrawnWETH x)
          \<le> (case User_store
                   (updateUserAggregates_minimal userAddr depositWETH withdrawWETH blockNumber s) u of
                None \<Rightarrow> 0 | Some x \<Rightarrow> totalWithdrawnWETH x))"
  using full_totals_never_decrease[of s u userAddr depositWETH withdrawWETH blockNumber]
    minimal_totals_never_decrease[of depositWETH withdrawWETH s u userAddr blockNumber]
  by blast

theorem user_totals_never_decrease_witness:
  "(case User_store
           (updateUserAggregates_minimal ''0xabc'' 3 0 6
              (updateUserAggregates_minimal ''0xabc'' 2 0 5 emptyStore)) ''0xabc'' of
      None \<Rightarrow> 0 | Some x \<Rightarrow> totalDepositedWETH x) = 5
   \<and> (case User_store (updateUserAggregates_minimal ''0xabc'' 2 0 5 emptyStore) ''0xabc'' of
      None \<Rightarrow> 0 | Some x \<Rightarrow> totalDepositedWETH x) = 2
   \<and> (0 :: decimal) \<le> 3
   \<and> (case User_store (updateUserAggregates_minimal ''0xabc'' 2 0 5 emptyStore) ''0xabc'' of
      None \<Rightarrow> 0 | Some x \<Rightarrow> totalDepositedWETH x)
     \<le> (case User_store
           (updateUserAggregates_minimal ''0xabc'' 3 0 6
              (updateUserAggregates_minimal ''0xabc'' 2 0 5 emptyStore)) ''0xabc'' of
      None \<Rightarrow> 0 | Some x \<Rightarrow> totalDepositedWETH x)"
proof -
  have h: "(0 :: decimal) \<le> 3" "(0 :: decimal) \<le> 0" by simp_all
  from user_totals_never_decrease[where depositWETH = 3 and withdrawWETH = 0
      and s = "updateUserAggregates_minimal ''0xabc'' 2 0 5 emptyStore" and u = "''0xabc''"
      and userAddr = "''0xabc''" and blockNumber = 6] h
  have a: "(case User_store (updateUserAggregates_minimal ''0xabc'' 2 0 5 emptyStore) ''0xabc'' of
      None \<Rightarrow> 0 | Some x \<Rightarrow> totalDepositedWETH x)
     \<le> (case User_store
           (updateUserAggregates_minimal ''0xabc'' 3 0 6
              (updateUserAggregates_minimal ''0xabc'' 2 0 5 emptyStore)) ''0xabc'' of
      None \<Rightarrow> 0 | Some x \<Rightarrow> totalDepositedWETH x)"
    by blast
  have b: "(case User_store
           (updateUserAggregates_minimal ''0xabc'' 3 0 6
              (updateUserAggregates_minimal ''0xabc'' 2 0 5 emptyStore)) ''0xabc'' of
      None \<Rightarrow> 0 | Some x \<Rightarrow> totalDepositedWETH x) = 5"
    "(case User_store (updateUserAggregates_minimal ''0xabc'' 2 0 5 emptyStore) ''0xabc'' of
      None \<Rightarrow> 0 | Some x \<Rightarrow> totalDepositedWETH x) = 2"
    by (simp_all add: updateUserAggregates_minimal_def emptyStore_def)
  from a b h show ?thesis by (intro conjI)
qed

text \<open>
  Claim C10 on the code.  The minimal \<open>getTokenAddressFromPool\<close> hands a stored entry of
  19 bytes to \<open>Address.fromBytes\<close>, which traps; the helper the handlers import returns
  the zero address for the same pool and index.
\<close>

theorem minimal_lookup_traps_on_short_entry:
  "getTokenAddressFromPool_minimal
     (Some \<lparr>pool_id = toHexString POOL_ADDRESS, lpToken = ZERO_ADDRESS,
            tokens = Some [Some (replicate 19 0)], createdBlock = 1\<rparr>) 0
   = Inl BadAddressLength
   \<and> getTokenAddressFromPool
     (Some \<lparr>pool_id = toHexString POOL_ADDRESS, lpToken = ZERO_ADDRESS,
            tokens = Some [Some (replicate 19 0)], createdBlock = 1\<rparr>) 0
   = Inr ZERO_ADDRESS"
  by (simp add: getTokenAddressFromPool_minimal_def getTokenAddressFromPool_def arrayAt_def
      Address_fromBytes_def)

text \<open>
  The helper the handlers import is total: for every pool, token list and index the
  lookup returns an address of 20 bytes and never traps; the address is the zero address
  when the pool or its list is missing, when the index is out of range, and when the
  entry is null or not 20 bytes wide, and the stored entry otherwise.
\<close>

theorem token_lookup_total:
  "(\<exists>a. getTokenAddressFromPool pool tokenIndex = Inr a \<and> length a = 20)
   \<and> (pool = None \<longrightarrow> getTokenAddressFromPool pool tokenIndex = Inr ZERO_ADDRESS)
   \<and> (\<forall>p. pool = Some p \<longrightarrow> tokens p = None \<longrightarrow>
          getTokenAddressFromPool pool tokenIndex = Inr ZERO_ADDRESS)
   \<and> (\<forall>p ts. pool = Some p \<longrightarrow> tokens p = Some ts \<longrightarrow>
          (tokenIndex < 0 \<or> int (length ts) \<le> tokenIndex \<longrightarrow>
             getTokenAddressFromPool pool tokenIndex = Inr ZERO_ADDRESS)
          \<and> (0 \<le> tokenIndex \<longrightarrow> tokenIndex < int (length ts) \<longrightarrow>
               getTokenAddressFromPool pool tokenIndex =
                 (case ts ! nat tokenIndex of
                    None \<Rightarrow> Inr ZERO_ADDRESS
                  | Some b \<Rightarrow> if length b = 20 then Inr b else Inr ZERO_ADDRESS)))"
  by (auto simp add: getTokenAddressFromPool_def arrayAt_def Address_fromBytes_def ZERO_ADDRESS_def
      split: option.splits)

section \<open>Properties of the oracle rates\<close>

lemma getOrCreate_existing:
  "OracleRate_store s (toHexString tokenAddr @ ''-'' @ intToString (number blk)) = Some r \<Longrightarrow>
   getOrCreateOracleRate tokenAddr blk rate src s = (r, s)"
  by (simp add: getOrCreateOracleRate_def)

lemma getOrCreate_new:
  "OracleRate_store s (toHexString tokenAddr @ ''-'' @ intToString (number blk)) = None \<Longrightarrow>
   getOrCreateOracleRate tokenAddr blk rate src s =
     (\<lparr>oracle_id = toHexString tokenAddr @ ''-'' @ intToString (number blk),
       oracle_token = tokenAddr, oracle_blockNumber = number blk,
       oracle_blockTimestamp = timestamp blk, rateToETH = rate, oracle_source = src\<rparr>,
      s\<lparr>OracleRate_store := (OracleRate_store s)
           (toHexString tokenAddr @ ''-'' @ intToString (number blk) \<mapsto>
             \<lparr>oracle_id = toHexString tokenAddr @ ''-'' @ intToString (number blk),
              oracle_token = tokenAddr, oracle_blockNumber = number blk,
              oracle_blockTimestamp = timestamp blk, rateToETH = rate, oracle_source = src\<rparr>)\<rparr>)"
  by (simp add: getOrCreateOracleRate_def fromHex_toHex Let_def)

lemma getOrCreate_keeps:
  "OracleRate_store s k = Some r \<Longrightarrow>
   OracleRate_store (snd (getOrCreateOracleRate tokenAddr blk rate src s)) k = Some r"
  by (auto simp add: getOrCreateOracleRate_def Let_def split: option.splits)

lemma getOrCreate_calls_keep:
  "OracleRate_store s k = Some r \<Longrightarrow>
   OracleRate_store
     (foldl (\<lambda>st (t, b, x, src). snd (getOrCreateOracleRate t b x src st)) s calls) k = Some r"
proof (induction calls arbitrary: s)
  case Nil
  then show ?case by simp
next
  case (Cons c calls)
  obtain t b x src where c: "c = (t, b, x, src)" by (cases c) auto
  have "OracleRate_store (snd (getOrCreateOracleRate t b x src s)) k = Some r"
    using Cons.prems by (rule getOrCreate_keeps)
  from Cons.IH[OF this] show ?case by (simp add: c)
qed

lemma getOrCreate_minimal_existing:
  "OracleRate_store s (toHexString tokenAddr @ ''-'' @ intToString (number blk)) = Some r \<Longrightarrow>
   getOrCreateOracleRate_minimal tokenAddr blk rate src s = (r, s)"
  by (simp add: getOrCreateOracleRate_minimal_def)

lemma getOrCreate_minimal_eq:
  "getOrCreateOracleRate_minimal tokenAddr blk rate src s
     = getOrCreateOracleRate tokenAddr blk rate src s"
  by (simp add: getOrCreateOracleRate_minimal_def getOrCreateOracleRate_def fromHex_toHex Let_def
      split: option.splits)

text \<open>
  Claim C6.  The key of a rate record is the hex string of the token, \<open>-\<close>, and the
  block number.  If the store holds a record under the key, \<open>getOrCreateOracleRate\<close>
  returns that record and the store as they are, whatever rate and source it is called
  with.  Otherwise it returns a new record for the key, made of its arguments, and the
  store with that record saved under the key and nothing else changed.  No sequence of
  calls changes or removes a record that the store holds.  The minimal helper computes
  the same function.
\<close>

theorem oracle_rate_created_once:
  "(\<forall>r. OracleRate_store s (toHexString tokenAddr @ ''-'' @ intToString (number blk)) = Some r \<longrightarrow>
        getOrCreateOracleRate tokenAddr blk rate src s = (r, s))
   \<and> (OracleRate_store s (toHexString tokenAddr @ ''-'' @ intToString (number blk)) = None \<longrightarrow>
        getOrCreateOracleRate tokenAddr blk rate src s =
          (\<lparr>oracle_id = toHexString tokenAddr @ ''-'' @ intToString (number blk),
            oracle_token = tokenAddr, oracle_blockNumber = number blk,
            oracle_blockTimestamp = timestamp blk, rateToETH = rate, oracle_source = src\<rparr>,
           s\<lparr>OracleRate_store := (OracleRate_store s)
                (toHexString tokenAddr @ ''-'' @ intToString (number blk) \<mapsto>
                  \<lparr>oracle_id = toHexString tokenAddr @ ''-'' @ intToString (number blk),
                   oracle_token = tokenAddr, oracle_blockNumber = number blk,
                   oracle_blockTimestamp = timestamp blk, rateToETH = rate,
                   oracle_source = src\<rparr>)\<rparr>))
   \<and> (\<forall>k r calls. OracleRate_store s k = Some r \<longrightarrow>
        OracleRate_store
          (foldl (\<lambda>st (t, b, x, c). snd (getOrCreateOracleRate t b x c st)) s calls) k = Some r)
   \<and> getOrCreateOracleRate_minimal tokenAddr blk rate src s
        = getOrCreateOracleRate tokenAddr blk rate src s"
  using getOrCreate_existing getOrCreate_new[of s tokenAddr blk rate src] getOrCreate_calls_keep
    getOrCreate_minimal_eq
  by blast

theorem oracle_rate_created_once_witness:
  "getOrCreateOracleRate WETH_ADDRESS \<lparr>number = 100, timestamp = 7\<rparr> 2 ''other''
     (snd (getOrCreateOracleRate WETH_ADDRESS \<lparr>number = 100, timestamp = 7\<rparr> 1 ''wrapper-call''
        emptyStore))
   = getOrCreateOracleRate WETH_ADDRESS \<lparr>number = 100, timestamp = 7\<rparr> 1 ''wrapper-call''
       emptyStore
   \<and> rateToETH (fst (getOrCreateOracleRate WETH_ADDRESS \<lparr>number = 100, timestamp = 7\<rparr> 1
        ''wrapper-call'' emptyStore)) = 1"
proof -
  let ?b = "\<lparr>number = 100, timestamp = 7\<rparr>"
  let ?k = "toHexString WETH_ADDRESS @ ''-'' @ intToString (number ?b)"
  have none: "OracleRate_store emptyStore ?k = None"
    by (simp add: emptyStore_def)
  from oracle_rate_created_once[of emptyStore WETH_ADDRESS ?b 1 "''wrapper-call''"] none
  have first: "getOrCreateOracleRate WETH_ADDRESS ?b 1 ''wrapper-call'' emptyStore =
          (\<lparr>oracle_id = ?k, oracle_token = WETH_ADDRESS, oracle_blockNumber = number ?b,
            oracle_blockTimestamp = timestamp ?b, rateToETH = 1,
            oracle_source = ''wrapper-call''\<rparr>,
           emptyStore\<lparr>OracleRate_store := (OracleRate_store emptyStore)
                (?k \<mapsto> \<lparr>oracle_id = ?k, oracle_token = WETH_ADDRESS,
                   oracle_blockNumber = number ?b, oracle_blockTimestamp = timestamp ?b,
                   rateToETH = 1, oracle_source = ''wrapper-call''\<rparr>)\<rparr>)"
    by blast
  let ?r = "fst (getOrCreateOracleRate WETH_ADDRESS ?b 1 ''wrapper-call'' emptyStore)"
  let ?s = "snd (getOrCreateOracleRate WETH_ADDRESS ?b 1 ''wrapper-call'' emptyStore)"
  have some: "OracleRate_store ?s ?k = Some ?r"
    by (simp add: first)
  from oracle_rate_created_once[of ?s WETH_ADDRESS ?b 2 "''other''"] some
  have "getOrCreateOracleRate WETH_ADDRESS ?b 2 ''other'' ?s = (?r, ?s)"
    by blast
  then show ?thesis by (simp add: first)
qed

section \<open>Properties of pool discovery\<close>

lemma discover_eq:
  "map Some (discoverLoop coins 0 maxIndex []) =
     takeWhile (\<lambda>r. r \<noteq> None \<and> r \<noteq> Some ZERO_ADDRESS)
       (map (\<lambda>k. coins (int k)) [0..<nat maxIndex])"
  using discoverLoop_eq[of 0 coins maxIndex "[]"] by simp

lemma validate_eq: "validateLoop discovered [] = filter (\<lambda>a. length a = 20) discovered"
  by (simp add: validateLoop_eq)

lemma initPool_empty:
  "filter (\<lambda>a. length a = 20) (discoverLoop (try_coins chain poolAddr) 0 maxIndex []) = [] \<Longrightarrow>
   initPoolIfNeeded chain poolAddr blk maxIndex s = s"
  by (simp add: initPoolIfNeeded_def validate_eq Let_def)

lemma initPool_write:
  "filter (\<lambda>a. length a = 20) (discoverLoop (try_coins chain poolAddr) 0 maxIndex []) \<noteq> [] \<Longrightarrow>
   initPoolIfNeeded chain poolAddr blk maxIndex s =
     s\<lparr>Pool_store := (Pool_store s)(toHexString poolAddr \<mapsto>
         \<lparr>pool_id = toHexString poolAddr, lpToken = poolAddr,
          tokens = Some (map Some (filter (\<lambda>a. length a = 20)
                     (discoverLoop (try_coins chain poolAddr) 0 maxIndex []))),
          createdBlock = number blk\<rparr>)\<rparr>"
  by (simp add: initPoolIfNeeded_def validate_eq Let_def FORCE_OVERWRITE_def fromHex_toHex)

lemma initPool_frame:
  "OracleRate_store (initPoolIfNeeded chain poolAddr blk maxIndex s) = OracleRate_store s
   \<and> User_store (initPoolIfNeeded chain poolAddr blk maxIndex s) = User_store s
   \<and> Deposit_store (initPoolIfNeeded chain poolAddr blk maxIndex s) = Deposit_store s
   \<and> Withdrawal_store (initPoolIfNeeded chain poolAddr blk maxIndex s) = Withdrawal_store s"
proof (cases "filter (\<lambda>a. length a = 20) (discoverLoop (try_coins chain poolAddr) 0 maxIndex []) = []")
  case True
  then show ?thesis by (simp add: initPool_empty)
next
  case False
  then show ?thesis by (simp add: initPool_write)
qed

text \<open>
  Claim C8.  The probing loop reads \<open>coins(i)\<close> for \<open>i = 0, 1, \<dots>\<close> below \<open>maxIndex\<close>
  (8 when no value is given, as in the handlers) and keeps the results up to, and
  without, the first reverted call or zero address.  The validation loop keeps, in the
  same order, the discovered addresses that are 20 bytes wide and passes over the
  others.  When at least one address is kept, the pool saved under the hex string of the
  pool address has exactly the kept addresses as its token list; when none is kept the
  store is left as it was.
\<close>

theorem pool_discovery:
  "map Some (discoverLoop (try_coins chain poolAddr) 0 maxIndex []) =
     takeWhile (\<lambda>r. r \<noteq> None \<and> r \<noteq> Some ZERO_ADDRESS)
       (map (\<lambda>k. try_coins chain poolAddr (int k)) [0..<nat maxIndex])
   \<and> validateLoop (discoverLoop (try_coins chain poolAddr) 0 maxIndex []) [] =
       filter (\<lambda>a. length a = 20) (discoverLoop (try_coins chain poolAddr) 0 maxIndex [])
   \<and> (validateLoop (discoverLoop (try_coins chain poolAddr) 0 maxIndex []) [] \<noteq> [] \<longrightarrow>
        initPoolIfNeeded chain poolAddr blk maxIndex s =
          s\<lparr>Pool_store := (Pool_store s)(toHexString poolAddr \<mapsto>
              \<lparr>pool_id = toHexString poolAddr, lpToken = poolAddr,
               tokens = Some (map Some
                  (validateLoop (discoverLoop (try_coins chain poolAddr) 0 maxIndex []) [])),
               createdBlock = number blk\<rparr>)\<rparr>)
   \<and> (validateLoop (discoverLoop (try_coins chain poolAddr) 0 maxIndex []) [] = [] \<longrightarrow>
        initPoolIfNeeded chain poolAddr blk maxIndex s = s)"
  using discover_eq[of "try_coins chain poolAddr" maxIndex]
    initPool_write[of chain poolAddr maxIndex blk s] initPool_empty[of chain poolAddr maxIndex blk s]
  by (simp add: validate_eq)

lemma ZERO_ADDRESS_lit:
  "ZERO_ADDRESS = [0, 0, 0, 0, 0, 0, 0, 0, 0, 0, 0, 0, 0, 0, 0, 0, 0, 0, 0, 0]"
  by (simp add: ZERO_ADDRESS_def eval_nat_numeral)

lemma discover_example:
  "discoverLoop (\<lambda>i. if i = 0 then Some WEETH_ADDRESS else if i = 1 then Some WSTETH_ADDRESS else None)
     0 8 [] = [WEETH_ADDRESS, WSTETH_ADDRESS]"
  by (simp add: discoverLoop.simps WEETH_ADDRESS_def WSTETH_ADDRESS_def ZERO_ADDRESS_lit)

theorem pool_discovery_witness:
  "Pool_store
     (initPoolIfNeeded
        \<lparr>try_coins = (\<lambda>p i. if i = 0 then Some WEETH_ADDRESS
                             else if i = 1 then Some WSTETH_ADDRESS else None),
         try_decimals = (\<lambda>t. None)\<rparr>
        POOL_ADDRESS \<lparr>number = 100, timestamp = 7\<rparr> 8 emptyStore)
     (toHexString POOL_ADDRESS)
   = Some \<lparr>pool_id = toHexString POOL_ADDRESS, lpToken = POOL_ADDRESS,
           tokens = Some [Some WEETH_ADDRESS, Some WSTETH_ADDRESS], createdBlock = 100\<rparr>
   \<and> initPoolIfNeeded \<lparr>try_coins = (\<lambda>p i. None), try_decimals = (\<lambda>t. None)\<rparr>
         POOL_ADDRESS \<lparr>number = 100, timestamp = 7\<rparr> 8 emptyStore = emptyStore"
proof -
  let ?chain = "\<lparr>try_coins = (\<lambda>p i. if i = 0 then Some WEETH_ADDRESS
                             else if i = 1 then Some WSTETH_ADDRESS else None),
         try_decimals = (\<lambda>t. None)\<rparr>"
  have v: "validateLoop (discoverLoop (\<lambda>i. if i = 0 then Some WEETH_ADDRESS
                             else if i = 1 then Some WSTETH_ADDRESS else None) 0 8 []) []
             = [WEETH_ADDRESS, WSTETH_ADDRESS]"
    by (simp only: discover_example) (simp add: validate_eq WEETH_ADDRESS_def WSTETH_ADDRESS_def)
  then have ne: "validateLoop (discoverLoop (try_coins ?chain POOL_ADDRESS) 0 8 []) [] \<noteq> []"
    by simp
  from pool_discovery[of ?chain POOL_ADDRESS 8 "\<lparr>number = 100, timestamp = 7\<rparr>" emptyStore] ne
  have "initPoolIfNeeded ?chain POOL_ADDRESS \<lparr>number = 100, timestamp = 7\<rparr> 8 emptyStore =
          emptyStore\<lparr>Pool_store := (Pool_store emptyStore)(toHexString POOL_ADDRESS \<mapsto>
              \<lparr>pool_id = toHexString POOL_ADDRESS, lpToken = POOL_ADDRESS,
               tokens = Some (map Some
                  (validateLoop (discoverLoop (try_coins ?chain POOL_ADDRESS) 0 8 []) [])),
               createdBlock = number \<lparr>number = 100, timestamp = 7\<rparr>\<rparr>)\<rparr>"
    by blast
  then have first: "Pool_store
     (initPoolIfNeeded ?chain POOL_ADDRESS \<lparr>number = 100, timestamp = 7\<rparr> 8 emptyStore)
     (toHexString POOL_ADDRESS)
   = Some \<lparr>pool_id = toHexString POOL_ADDRESS, lpToken = POOL_ADDRESS,
           tokens = Some [Some WEETH_ADDRESS, Some WSTETH_ADDRESS], createdBlock = 100\<rparr>"
    by (simp add: v)
  let ?dead = "\<lparr>try_coins = (\<lambda>p i. None), try_decimals = (\<lambda>t. None)\<rparr>"
  have e: "validateLoop (discoverLoop (try_coins ?dead POOL_ADDRESS) 0 8 []) [] = []"
    by (simp add: discoverLoop.simps)
  from pool_discovery[of ?dead POOL_ADDRESS 8 "\<lparr>number = 100, timestamp = 7\<rparr>" emptyStore] e
  have second: "initPoolIfNeeded ?dead POOL_ADDRESS \<lparr>number = 100, timestamp = 7\<rparr> 8 emptyStore
                  = emptyStore"
    by blast
  from first second show ?thesis by (rule conjI)
qed

section \<open>Properties of the event handlers\<close>

lemma loadPool_frame:
  "loadPoolWithRetry chain blk s = (s1, pool) \<Longrightarrow>
     OracleRate_store s1 = OracleRate_store s \<and> User_store s1 = User_store s
     \<and> Deposit_store s1 = Deposit_store s \<and> Withdrawal_store s1 = Withdrawal_store s"
  by (auto simp add: loadPoolWithRetry_def Let_def initPool_frame split: option.splits)

lemma liquidityRow_zero: "liquidityRow chain event pool kind tokenIndex 0 s = Inr s"
  by (simp add: liquidityRow_def)

lemma liquidityLoop_skip_zero:
  "liquidityLoop chain event pool kind i (0 # amounts) s
     = liquidityLoop chain event pool kind (i + 1) amounts s"
  by (simp add: liquidityRow_zero)

lemma liquidityLoop_all_zero:
  "\<forall>a \<in> set amounts. a = 0 \<Longrightarrow> liquidityLoop chain event pool kind i amounts s = Inr s"
  by (induction amounts arbitrary: i) (simp_all add: liquidityRow_zero)

lemma handleAdd_all_zero:
  "\<forall>a \<in> set (token_amounts event). a = 0 \<Longrightarrow>
   \<exists>s'. handleAddLiquidity chain event s = Inr s'
        \<and> OracleRate_store s' = OracleRate_store s \<and> User_store s' = User_store s
        \<and> Deposit_store s' = Deposit_store s \<and> Withdrawal_store s' = Withdrawal_store s"
proof -
  assume z: "\<forall>a \<in> set (token_amounts event). a = 0"
  obtain s1 pool where l: "loadPoolWithRetry chain (ev_block event) s = (s1, pool)"
    by (cases "loadPoolWithRetry chain (ev_block event) s") auto
  have "handleAddLiquidity chain event s = Inr s1"
    using l z by (cases pool) (simp_all add: handleAddLiquidity_def liquidityLoop_all_zero)
  then show ?thesis using loadPool_frame[OF l] by simp
qed

lemma handleRemove_all_zero:
  "\<forall>a \<in> set (token_amounts event). a = 0 \<Longrightarrow>
   \<exists>s'. handleRemoveLiquidity chain event s = Inr s'
        \<and> OracleRate_store s' = OracleRate_store s \<and> User_store s' = User_store s
        \<and> Deposit_store s' = Deposit_store s \<and> Withdrawal_store s' = Withdrawal_store s"
proof -
  assume z: "\<forall>a \<in> set (token_amounts event). a = 0"
  obtain s1 pool where l: "loadPoolWithRetry chain (ev_block event) s = (s1, pool)"
    by (cases "loadPoolWithRetry chain (ev_block event) s") auto
  have "handleRemoveLiquidity chain event s = Inr s1"
    using l z by (cases pool) (simp_all add: handleRemoveLiquidity_def liquidityLoop_all_zero)
  then show ?thesis using loadPool_frame[OF l] by simp
qed

lemma handleRemoveOne_zero:
  "token_amount event = 0 \<Longrightarrow>
   (case handleRemoveLiquidityOne chain event s of
      Inl f \<Rightarrow> f = I32Overflow
    | Inr s' \<Rightarrow>
        OracleRate_store s' = OracleRate_store s \<and> User_store s' = User_store s
        \<and> Deposit_store s' = Deposit_store s \<and> Withdrawal_store s' = Withdrawal_store s)"
proof -
  assume z: "token_amount event = 0"
  obtain s1 pool where l: "loadPoolWithRetry chain (ev_block event) s = (s1, pool)"
    by (cases "loadPoolWithRetry chain (ev_block event) s") auto
  note fr = loadPool_frame[OF l]
  show ?thesis
  proof (cases pool)
    case None
    then show ?thesis using l fr by (simp add: handleRemoveLiquidityOne_def)
  next
    case (Some p)
    then show ?thesis using l fr z
      by (simp add: handleRemoveLiquidityOne_def toI32_def)
  qed
qed

text \<open>
  Claim C7.  A zero amount in the list of an \<open>AddLiquidity\<close> or \<open>RemoveLiquidity\<close> event
  leaves the whole store as it was and the loop goes on with the next index; an event
  whose amounts are all zero ends with the deposits, the withdrawals, the users and the
  rate records it started with.  A \<open>RemoveLiquidityOne\<close> event with a zero amount ends
  with the same four stores, unless the handler traps on a token index that
  \<open>BigInt.toI32\<close> rejects, in which case nothing of it is kept.  The subgraph has no per-transaction
  aggregate; the opening of a handler may still save the pool.
\<close>

theorem zero_amount_rows_have_no_effect:
  "liquidityRow chain event pool kind tokenIndex 0 s = Inr s
   \<and> liquidityLoop chain event pool kind i (0 # amounts) s
       = liquidityLoop chain event pool kind (i + 1) amounts s
   \<and> ((\<forall>a \<in> set (token_amounts add). a = 0) \<longrightarrow>
        (\<exists>s'. handleAddLiquidity chain add s = Inr s'
           \<and> OracleRate_store s' = OracleRate_store s \<and> User_store s' = User_store s
           \<and> Deposit_store s' = Deposit_store s \<and> Withdrawal_store s' = Withdrawal_store s))
   \<and> ((\<forall>a \<in> set (token_amounts remove). a = 0) \<longrightarrow>
        (\<exists>s'. handleRemoveLiquidity chain remove s = Inr s'
           \<and> OracleRate_store s' = OracleRate_store s \<and> User_store s' = User_store s
           \<and> Deposit_store s' = Deposit_store s \<and> Withdrawal_store s' = Withdrawal_store s))
   \<and> (token_amount one = 0 \<longrightarrow>
        (case handleRemoveLiquidityOne chain one s of
           Inl f \<Rightarrow> f = I32Overflow
         | Inr s' \<Rightarrow>
             OracleRate_store s' = OracleRate_store s \<and> User_store s' = User_store s
             \<and> Deposit_store s' = Deposit_store s
             \<and> Withdrawal_store s' = Withdrawal_store s))"
proof (intro conjI impI)
  show "liquidityRow chain event pool kind tokenIndex 0 s = Inr s"
    by (rule liquidityRow_zero)
  show "liquidityLoop chain event pool kind i (0 # amounts) s
          = liquidityLoop chain event pool kind (i + 1) amounts s"
    by (rule liquidityLoop_skip_zero)
next
  assume "\<forall>a \<in> set (token_amounts add). a = 0"
  then show "\<exists>s'. handleAddLiquidity chain add s = Inr s'
           \<and> OracleRate_store s' = OracleRate_store s \<and> User_store s' = User_store s
           \<and> Deposit_store s' = Deposit_store s \<and> Withdrawal_store s' = Withdrawal_store s"
    by (rule handleAdd_all_zero)
next
  assume "\<forall>a \<in> set (token_amounts remove). a = 0"
  then show "\<exists>s'. handleRemoveLiquidity chain remove s = Inr s'
           \<and> OracleRate_store s' = OracleRate_store s \<and> User_store s' = User_store s
           \<and> Deposit_store s' = Deposit_store s \<and> Withdrawal_store s' = Withdrawal_store s"
    by (rule handleRemove_all_zero)
next
  assume "token_amount one = 0"
  then show "case handleRemoveLiquidityOne chain one s of
           Inl f \<Rightarrow> f = I32Overflow
         | Inr s' \<Rightarrow>
             OracleRate_store s' = OracleRate_store s \<and> User_store s' = User_store s
             \<and> Deposit_store s' = Deposit_store s
             \<and> Withdrawal_store s' = Withdrawal_store s"
    by (rule handleRemoveOne_zero)
qed

theorem zero_amount_rows_have_no_effect_witness:
  "(\<exists>s'. handleAddLiquidity
           \<lparr>try_coins = (\<lambda>p i. if i = 0 then Some WEETH_ADDRESS
                                else if i = 1 then Some WSTETH_ADDRESS else None),
            try_decimals = (\<lambda>t. Some 18)\<rparr>
           \<lparr>ev_block = \<lparr>number = 100, timestamp = 7\<rparr>, ev_transactionHash = replicate 32 1,
            ev_logIndex = 3, ev_provider = replicate 20 2, token_amounts = [0, 0, 0]\<rparr>
           emptyStore = Inr s'
         \<and> OracleRate_store s' = OracleRate_store emptyStore
         \<and> User_store s' = User_store emptyStore
         \<and> Deposit_store s' = Deposit_store emptyStore
         \<and> Withdrawal_store s' = Withdrawal_store emptyStore)
   \<and> (\<exists>s'. handleRemoveLiquidity
           \<lparr>try_coins = (\<lambda>p i. if i = 0 then Some WEETH_ADDRESS
                                else if i = 1 then Some WSTETH_ADDRESS else None),
            try_decimals = (\<lambda>t. Some 18)\<rparr>
           \<lparr>ev_block = \<lparr>number = 100, timestamp = 7\<rparr>, ev_transactionHash = replicate 32 1,
            ev_logIndex = 3, ev_provider = replicate 20 2, token_amounts = [0, 0, 0]\<rparr>
           emptyStore = Inr s'
         \<and> OracleRate_store s' = OracleRate_store emptyStore
         \<and> User_store s' = User_store emptyStore
         \<and> Deposit_store s' = Deposit_store emptyStore
         \<and> Withdrawal_store s' = Withdrawal_store emptyStore)
   \<and> (case handleRemoveLiquidityOne
           \<lparr>try_coins = (\<lambda>p i. if i = 0 then Some WEETH_ADDRESS
                                else if i = 1 then Some WSTETH_ADDRESS else None),
            try_decimals = (\<lambda>t. Some 18)\<rparr>
           \<lparr>ev_block = \<lparr>number = 100, timestamp = 7\<rparr>, ev_transactionHash = replicate 32 1,
            ev_logIndex = 4, ev_provider = replicate 20 2, token_id = 1, token_amount = 0\<rparr>
           emptyStore of
         Inl f \<Rightarrow> f = I32Overflow
       | Inr s' \<Rightarrow>
           OracleRate_store s' = OracleRate_store emptyStore
           \<and> User_store s' = User_store emptyStore
           \<and> Deposit_store s' = Deposit_store emptyStore
           \<and> Withdrawal_store s' = Withdrawal_store emptyStore)"
proof -
  let ?chain = "\<lparr>try_coins = (\<lambda>p i. if i = 0 then Some WEETH_ADDRESS
                                else if i = 1 then Some WSTETH_ADDRESS else None),
            try_decimals = (\<lambda>t. Some 18)\<rparr>"
  let ?add = "\<lparr>ev_block = \<lparr>number = 100, timestamp = 7\<rparr>, ev_transactionHash = replicate 32 1,
            ev_logIndex = 3, ev_provider = replicate 20 2, token_amounts = [0, 0, 0]\<rparr>"
  let ?one = "\<lparr>ev_block = \<lparr>number = 100, timestamp = 7\<rparr>, ev_transactionHash = replicate 32 1,
            ev_logIndex = 4, ev_provider = replicate 20 2, token_id = 1, token_amount = 0\<rparr>"
  note t = zero_amount_rows_have_no_effect[where chain = ?chain and add = ?add and one = ?one
      and s = emptyStore and event = ?add and remove = ?add and pool = None and kind = IsDeposit
      and tokenIndex = 0 and i = 0 and amounts = "[]"]
  have h1: "\<forall>a \<in> set (token_amounts ?add). a = 0" by simp
  have h2: "token_amount ?one = 0" by simp
  from t h1 have c1: "\<exists>s'. handleAddLiquidity ?chain ?add emptyStore = Inr s'
         \<and> OracleRate_store s' = OracleRate_store emptyStore
         \<and> User_store s' = User_store emptyStore
         \<and> Deposit_store s' = Deposit_store emptyStore
         \<and> Withdrawal_store s' = Withdrawal_store emptyStore"
    by blast
  from t h1 have c3: "\<exists>s'. handleRemoveLiquidity ?chain ?add emptyStore = Inr s'
         \<and> OracleRate_store s' = OracleRate_store emptyStore
         \<and> User_store s' = User_store emptyStore
         \<and> Deposit_store s' = Deposit_store emptyStore
         \<and> Withdrawal_store s' = Withdrawal_store emptyStore"
    by blast
  from t h2 have c2: "case handleRemoveLiquidityOne ?chain ?one emptyStore of
         Inl f \<Rightarrow> f = I32Overflow
       | Inr s' \<Rightarrow>
           OracleRate_store s' = OracleRate_store emptyStore
           \<and> User_store s' = User_store emptyStore
           \<and> Deposit_store s' = Deposit_store emptyStore
           \<and> Withdrawal_store s' = Withdrawal_store emptyStore"
    by blast
  from c1 c3 c2 show ?thesis by (intro conjI)
qed

subsection \<open>Rows with an amount that is not zero\<close>

lemma updateUser_frame:
  "Deposit_store (updateUserAggregates u d w b s) = Deposit_store s
   \<and> Withdrawal_store (updateUserAggregates u d w b s) = Withdrawal_store s
   \<and> OracleRate_store (updateUserAggregates u d w b s) = OracleRate_store s
   \<and> Pool_store (updateUserAggregates u d w b s) = Pool_store s"
  by (simp add: updateUserAggregates_def Let_def)

lemma Address_fromString_toHex:
  "length a = 20 \<Longrightarrow> Address_fromString (toHexString a) = Inr a"
  by (simp add: Address_fromString_def fromHex_toHex)

text \<open>
  A row whose amount is not zero is materialised: when the provider is an address of
  20 bytes the handler does not trap, the deposit is saved under the identifier of the
  row with the raw amount and with the canonical amount \<open>raw / 10^decimals * rate\<close>,
  where the rate is the one of the rate record that \<open>getOrCreateOracleRate\<close> returns.
\<close>

lemma nonzero_row_materialized:
  assumes "length (ev_provider event) = 20" and "amountRaw \<noteq> 0"
  shows "\<exists>s' e oracle s1.
           liquidityRow chain event pool IsDeposit tokenIndex amountRaw s = Inr s'
         \<and> Deposit_store s'
              (makePerTokenId (toHexString (ev_transactionHash event)) (ev_logIndex event)
                 tokenIndex) = Some e
         \<and> flow_amountRaw e = amountRaw
         \<and> getOrCreateOracleRate (flow_token e) (ev_block event)
              (fetchRedemptionRate (flow_token e) (ev_block event)) ''wrapper-call'' s
              = (oracle, s1)
         \<and> flow_rateToETHId e = oracle_id oracle
         \<and> flow_amountWETH e =
              of_int amountRaw / 10 ^ nat (fetchTokenDecimals chain (flow_token e))
                * rateToETH oracle"
proof -
  obtain a where g: "getTokenAddressFromPool pool tokenIndex = Inr a"
    using token_lookup_total by blast
  define tokenAddr where "tokenAddr =
     (if a = ZERO_ADDRESS then
        (let t0 = (if tokenIndex = 0 then WEETH_ADDRESS else a);
             t1 = (if tokenIndex = 1 then WSTETH_ADDRESS else t0)
         in if tokenIndex = 2 then WETH_ADDRESS else t1)
      else a)"
  obtain rateRec s1 where o:
    "getOrCreateOracleRate tokenAddr (ev_block event)
       (fetchRedemptionRate tokenAddr (ev_block event)) ''wrapper-call'' s = (rateRec, s1)"
    by (cases "getOrCreateOracleRate tokenAddr (ev_block event)
       (fetchRedemptionRate tokenAddr (ev_block event)) ''wrapper-call'' s") auto
  note p = Address_fromString_toHex[OF assms(1)]
  show ?thesis
    using assms(2)
    by (simp add: liquidityRow_def materializeRow_def g p Let_def o[unfolded tokenAddr_def]
        tokenAddr_def[symmetric] updateUser_frame toDecimal_eq o)
qed

lemma update_adds_amounts:
  "\<exists>x. User_store (updateUserAggregates u d w b s) u = Some x
     \<and> totalDepositedWETH x =
         (case User_store s u of None \<Rightarrow> 0 | Some y \<Rightarrow> totalDepositedWETH y)
           + (if 0 < d then d else 0)
     \<and> totalWithdrawnWETH x =
         (case User_store s u of None \<Rightarrow> 0 | Some y \<Rightarrow> totalWithdrawnWETH y)
           + (if 0 < w then w else 0)
     \<and> lastUpdatedBlock x = b"
  by (simp add: updateUserAggregates_def Let_def split: option.splits)

subsection \<open>The key of a rate record determines the token and the block\<close>

lemma digitValue_digit: "d < 10 \<Longrightarrow> digitValue (char_of (48 + d)) = Some d"
  by (simp add: digitValue_def)

lemma digitsValue_append:
  "digitsValue acc (xs @ ys) =
     (case digitsValue acc xs of None \<Rightarrow> None | Some a \<Rightarrow> digitsValue a ys)"
  by (induction xs arbitrary: acc) (simp_all split: option.splits)

lemma digitsValue_natToString: "digitsValue 0 (natToString n) = Some n"
proof (induction n rule: natToString.induct)
  case (1 n)
  show ?case
  proof (cases "n < 10")
    case True
    then show ?thesis by (simp add: natToString.simps[of n] digitValue_digit)
  next
    case False
    with 1 have "digitsValue 0 (natToString (n div 10)) = Some (n div 10)" by simp
    then show ?thesis
      using False by (simp add: natToString.simps[of n] digitsValue_append digitValue_digit)
  qed
qed

lemma natToString_inj: "natToString m = natToString n \<Longrightarrow> m = n"
  by (metis digitsValue_natToString option.inject)

lemma natToString_no_minus: "natToString n \<noteq> CHR ''-'' # cs"
proof
  assume "natToString n = CHR ''-'' # cs"
  then have "digitsValue 0 (CHR ''-'' # cs) = Some n"
    by (metis digitsValue_natToString)
  then show False by (simp add: digitValue_def)
qed

lemma intToString_inj: "intToString i = intToString j \<Longrightarrow> i = j"
proof -
  assume e: "intToString i = intToString j"
  show ?thesis
  proof (cases "i < 0")
    case True
    note ineg = True
    show ?thesis
    proof (cases "j < 0")
      case True
      have "CHR ''-'' # natToString (nat (- i)) = CHR ''-'' # natToString (nat (- j))"
        using e ineg True by (simp only: intToString_def if_True)
      then have "natToString (nat (- i)) = natToString (nat (- j))" by (simp only: list.inject)
      then have "nat (- i) = nat (- j)" by (rule natToString_inj)
      with True ineg show ?thesis by linarith
    next
      case False
      have "CHR ''-'' # natToString (nat (- i)) = natToString (nat j)"
        using e ineg False by (simp only: intToString_def if_True if_False)
      then show ?thesis using natToString_no_minus[of "nat j" "natToString (nat (- i))"]
        by metis
    qed
  next
    case False
    note ipos = False
    show ?thesis
    proof (cases "j < 0")
      case True
      have "natToString (nat i) = CHR ''-'' # natToString (nat (- j))"
        using e ipos True by (simp only: intToString_def if_True if_False)
      then show ?thesis using natToString_no_minus[of "nat i" "natToString (nat (- j))"]
        by metis
    next
      case False
      have "natToString (nat i) = natToString (nat j)"
        using e ipos False by (simp only: intToString_def if_False)
      then have "nat i = nat j" by (rule natToString_inj)
      with False ipos show ?thesis by linarith
    qed
  qed
qed

lemma length_hex: "length (concat (map byteToHex bs)) = 2 * length bs"
  by (induction bs) (simp_all add: byteToHex_def)

lemma toHexString_inj: "toHexString a = toHexString b \<Longrightarrow> a = b"
  by (metis fromHex_toHex option.inject)

text \<open>
  Two tokens of the same width and two blocks have the same key only if the tokens are
  equal and the block numbers are equal.
\<close>

lemma oracle_key_inj:
  assumes "length t1 = length t2"
    and "toHexString t1 @ ''-'' @ intToString n1 = toHexString t2 @ ''-'' @ intToString n2"
  shows "t1 = t2 \<and> n1 = n2"
proof -
  have l: "length (toHexString t1) = length (toHexString t2)"
    using assms(1) by (simp add: toHexString_def length_hex)
  have "toHexString t1 = toHexString t2 \<and> ''-'' @ intToString n1 = ''-'' @ intToString n2"
    using assms(2) append_eq_append_conv[OF disjI1[OF l]] by blast
  then have "t1 = t2" and "intToString n1 = intToString n2"
    using toHexString_inj by auto
  then show ?thesis by (metis intToString_inj)
qed

end
